theory Spec2Isabelle
  imports Complex_Main
begin

section \<open>Values, errors and the world outside the program\<close>

text \<open>
  The metadata resolver of photomap (\<^verbatim>\<open>src/exif_loader.py\<close>, \<^verbatim>\<open>src/geo_utils.py\<close>,
  \<^verbatim>\<open>src/types_.py\<close>) is embedded function by function. Conventions:
  \<^item> A Python \<^verbatim>\<open>float\<close> is modelled as a \<^typ>\<open>real\<close>: comparison, negation and \<^verbatim>\<open>abs\<close>
    are exact on floats; the rounding of \<^verbatim>\<open>+\<close> and \<^verbatim>\<open>/\<close>, infinities and NaN are outside
    the model. The overflow of \<^verbatim>\<open>float\<close> on a large JSON integer is modelled, as an error.
  \<^item> \<^verbatim>\<open>Optional[T]\<close> is \<^typ>\<open>'a option\<close>.
  \<^item> A raised exception is a value \<open>Inl e\<close> of \<open>error + 'a\<close>; every
    \<^verbatim>\<open>try ... except Exception\<close> of the source is a case distinction on such a value.
  \<^item> A leading underscore of a Python name is dropped
    (\<^verbatim>\<open>_drop_if_zero_coord\<close> is \<open>drop_if_zero_coord\<close>).
\<close>

datatype error =
    ValueError | ZeroDivisionError | IndexError | TypeError | AttributeError
  | OverflowError | OSError | JSONDecodeError | UnidentifiedImageError

section \<open>geo\_utils.dms\_to\_decimal\<close>

text \<open>
  \<^verbatim>\<open>d = [n / d for n, d in dms]\<close>: the quotients of all pairs, in order; a zero
  denominator raises \<^verbatim>\<open>ZeroDivisionError\<close>.
\<close>

fun quotients :: "(real \<times> real) list \<Rightarrow> error + real list" where
  "quotients [] = Inr []"
| "quotients ((n, d) # rest) =
     (if d = 0 then Inl ZeroDivisionError
      else (case quotients rest of Inl e \<Rightarrow> Inl e | Inr qs \<Rightarrow> Inr (n / d # qs)))"

text \<open>\<^verbatim>\<open>d[i]\<close> on a Python list, for an index \<open>i \<ge> 0\<close>.\<close>

definition item :: "'a list \<Rightarrow> nat \<Rightarrow> error + 'a" where
  "item xs i = (if i < length xs then Inr (xs ! i) else Inl IndexError)"

text \<open>The body of the \<^verbatim>\<open>try\<close> block of \<^verbatim>\<open>dms_to_decimal\<close>.\<close>

definition dms_to_decimal_body :: "(real \<times> real) list \<Rightarrow> string option \<Rightarrow> error + real" where
  "dms_to_decimal_body dms ref =
     (case quotients dms of Inl e \<Rightarrow> Inl e
      | Inr d \<Rightarrow>
        (case item d 0 of Inl e \<Rightarrow> Inl e
         | Inr d0 \<Rightarrow>
           (case item d 1 of Inl e \<Rightarrow> Inl e
            | Inr d1 \<Rightarrow>
              (case item d 2 of Inl e \<Rightarrow> Inl e
               | Inr d2 \<Rightarrow>
                 (let deg = d0 + d1 / 60 + d2 / 3600
                  in Inr (if ref = Some ''S'' \<or> ref = Some ''W'' then - deg else deg))))))"

text \<open>\<^verbatim>\<open>except Exception: return None\<close>.\<close>

definition dms_to_decimal :: "(real \<times> real) list \<Rightarrow> string option \<Rightarrow> real option" where
  "dms_to_decimal dms ref =
     (case dms_to_decimal_body dms ref of Inl e \<Rightarrow> None | Inr deg \<Rightarrow> Some deg)"

section \<open>exif\_loader: helpers for the header parser\<close>

text \<open>
  \<^verbatim>\<open>s.split("/")\<close>: the pieces of \<open>s\<close> between occurrences of the separator (always at
  least one piece).
\<close>

fun split_on :: "char \<Rightarrow> string \<Rightarrow> string list" where
  "split_on c [] = [ [] ]"
| "split_on c (x # xs) =
     (if x = c then [] # split_on c xs
      else (case split_on c xs of w # ws \<Rightarrow> (x # w) # ws | [] \<Rightarrow> [ [x] ]))"

text \<open>
  Python's builtin \<^verbatim>\<open>float(s)\<close> on a string is not part of the repository: it is the
  parameter \<open>pyfloat\<close>, with \<open>None\<close> where the builtin raises \<^verbatim>\<open>ValueError\<close>.
\<close>

definition float_str :: "(string \<Rightarrow> real option) \<Rightarrow> string \<Rightarrow> error + real" where
  "float_str pyfloat s = (case pyfloat s of None \<Rightarrow> Inl ValueError | Some v \<Rightarrow> Inr v)"

text \<open>
  The local function \<^verbatim>\<open>to_float\<close> of \<^verbatim>\<open>_ratios_to_decimal\<close>, on \<open>s = str(x)\<close>.
  \<^verbatim>\<open>num, den = s.split("/")\<close> raises \<^verbatim>\<open>ValueError\<close> unless there are exactly two pieces.
\<close>

definition to_float :: "(string \<Rightarrow> real option) \<Rightarrow> string \<Rightarrow> error + real" where
  "to_float pyfloat s =
     (if CHR ''/'' \<in> set s then
        (case split_on CHR ''/'' s of
           [num, den] \<Rightarrow>
             (case float_str pyfloat num of Inl e \<Rightarrow> Inl e
              | Inr n \<Rightarrow>
                (case float_str pyfloat den of Inl e \<Rightarrow> Inl e
                 | Inr d \<Rightarrow> if d = 0 then Inl ZeroDivisionError else Inr (n / d)))
         | _ \<Rightarrow> Inl ValueError)
      else float_str pyfloat s)"

text \<open>\<^verbatim>\<open>[to_float(p) for p in parts]\<close>: the first failure aborts the comprehension.\<close>

fun to_floats :: "(string \<Rightarrow> real option) \<Rightarrow> string list \<Rightarrow> error + real list" where
  "to_floats pyfloat [] = Inr []"
| "to_floats pyfloat (p # ps) =
     (case to_float pyfloat p of Inl e \<Rightarrow> Inl e
      | Inr v \<Rightarrow> (case to_floats pyfloat ps of Inl e \<Rightarrow> Inl e | Inr vs \<Rightarrow> Inr (v # vs)))"

text \<open>
  The body of the \<^verbatim>\<open>try\<close> block of \<^verbatim>\<open>_ratios_to_decimal\<close>; \<open>parts\<close> holds \<open>str(x)\<close> for
  each element \<open>x\<close>. The unpacking \<^verbatim>\<open>deg, minute, second = [...]\<close> raises \<^verbatim>\<open>ValueError\<close>
  unless the list has exactly three elements.
\<close>

definition ratios_to_decimal_body ::
  "(string \<Rightarrow> real option) \<Rightarrow> string list \<Rightarrow> string option \<Rightarrow> error + real" where
  "ratios_to_decimal_body pyfloat parts ref =
     (case to_floats pyfloat parts of Inl e \<Rightarrow> Inl e
      | Inr [deg, minute, second] \<Rightarrow>
          (let val = deg + minute / 60 + second / 3600
           in Inr (if ref = Some ''S'' \<or> ref = Some ''W'' then - val else val))
      | Inr _ \<Rightarrow> Inl ValueError)"

definition ratios_to_decimal ::
  "(string \<Rightarrow> real option) \<Rightarrow> string list \<Rightarrow> string option \<Rightarrow> real option" where
  "ratios_to_decimal pyfloat parts ref =
     (case ratios_to_decimal_body pyfloat parts ref of Inl e \<Rightarrow> None | Inr val \<Rightarrow> Some val)"

section \<open>types\_.PhotoMeta and paths\<close>

text \<open>
  A \<^verbatim>\<open>pathlib.Path\<close>: its final component \<open>name\<close> (empty for a root or for \<^verbatim>\<open>Path(".")\<close>)
  and everything before it.
\<close>

record pypath =
  parent :: string
  name :: string

text \<open>
  The dataclass \<^verbatim>\<open>PhotoMeta\<close>. Its field \<^verbatim>\<open>make\<close> is \<open>make'\<close> here, \<open>make\<close> being the
  name of the record's own constructor function.
\<close>

record PhotoMeta =
  path :: pypath
  lat :: "real option"
  lon :: "real option"
  datetime :: "string option"
  make' :: "string option"
  model :: "string option"
  extra :: "string \<rightharpoonup> string"

text \<open>
  \<^verbatim>\<open>PurePath.suffix\<close> and \<^verbatim>\<open>PurePath.with_suffix\<close> of the standard library (CPython up to
  3.13): the suffix starts at the last dot of the name, unless that dot is the first or the
  last character; \<^verbatim>\<open>with_suffix\<close> raises \<^verbatim>\<open>ValueError\<close> for an invalid suffix and for a
  path with an empty name.
\<close>

definition rfind :: "char \<Rightarrow> string \<Rightarrow> int" where
  "rfind c s =
     (if c \<in> set s
      then int (length s) - 1 - int (length (takeWhile (\<lambda>x. x \<noteq> c) (rev s)))
      else - 1)"

definition suffix :: "pypath \<Rightarrow> string" where
  "suffix p =
     (let i = rfind CHR ''.'' (name p)
      in if 0 < i \<and> i < int (length (name p)) - 1 then drop (nat i) (name p) else [])"

definition with_suffix :: "pypath \<Rightarrow> string \<Rightarrow> error + pypath" where
  "with_suffix p sfx =
     (if CHR ''/'' \<in> set sfx then Inl ValueError
      else if (sfx \<noteq> [] \<and> take 1 sfx \<noteq> ''.'') \<or> sfx = ''.'' then Inl ValueError
      else if name p = [] then Inl ValueError
      else Inr (p\<lparr>name :=
             (if suffix p = [] then name p @ sfx
              else take (length (name p) - length (suffix p)) (name p) @ sfx)\<rparr>))"

section \<open>Values of the libraries\<close>

text \<open>
  A Python object decoded by \<^verbatim>\<open>json.loads\<close>; \<open>JNull\<close> is \<^verbatim>\<open>None\<close>. An object is the
  list of its members, each key once.
\<close>

datatype json =
    JNull | JBool bool | JInt int | JFloat real | JStr string
  | JArr "json list" | JObj "(string \<times> json) list"

text \<open>
  An \<^verbatim>\<open>exifread\<close> tag: \<open>printable\<close> is \<open>str(tag)\<close>, and \<open>values'\<close> holds \<open>str(x)\<close> for
  each \<open>x\<close> of \<^verbatim>\<open>list(tag.values)\<close>.
\<close>

record IfdTag =
  printable :: string
  values' :: "string list"

type_synonym tags = "string \<rightharpoonup> IfdTag"

text \<open>
  What Pillow's \<^verbatim>\<open>img.getexif()\<close> holds, with tag ids already translated by \<^verbatim>\<open>TAGS\<close>
  and \<^verbatim>\<open>GPSTAGS\<close>: string tags, and under \<^verbatim>\<open>GPSInfo\<close> either the GPS sub-dictionary or
  (newer Pillow versions) the integer offset of the GPS directory.
\<close>

datatype gpsval = Rationals "(real \<times> real) list" | Rational real real | Text string

datatype gpsinfo = GPSDict "(string \<times> gpsval) list" | GPSOffset int

record pil_exif =
  GPSInfo :: "gpsinfo option"
  DateTimeOriginal :: "string option"
  DateTime :: "string option"
  Make :: "string option"
  Model :: "string option"

text \<open>
  The builtins and library calls the resolver makes. Each call that can raise returns
  a sum; what it returns is not constrained.
  \<^item> \<open>pyfloat\<close>: \<^verbatim>\<open>float(s)\<close> on a string, \<open>None\<close> for \<^verbatim>\<open>ValueError\<close>;
  \<^item> \<open>pystr\<close>: \<^verbatim>\<open>str(v)\<close> on a decoded JSON value that is not a string;
  \<^item> \<open>float_repr\<close>: \<^verbatim>\<open>str(x)\<close> on a float;
  \<^item> \<open>process_file\<close>: \<^verbatim>\<open>path.open("rb")\<close> followed by \<^verbatim>\<open>exifread.process_file\<close>;
  \<^item> \<open>path_exists\<close>, \<open>read_text\<close>: \<^verbatim>\<open>Path.exists\<close>, \<^verbatim>\<open>Path.read_text\<close>;
  \<^item> \<open>json_loads\<close>: \<^verbatim>\<open>json.loads\<close>;
  \<^item> \<open>getexif\<close>: \<^verbatim>\<open>Image.open(path)\<close> followed by \<^verbatim>\<open>img.getexif()\<close>.
\<close>

record env =
  pyfloat :: "string \<Rightarrow> real option"
  pystr :: "json \<Rightarrow> string"
  float_repr :: "real \<Rightarrow> string"
  process_file :: "pypath \<Rightarrow> error + tags"
  path_exists :: "pypath \<Rightarrow> error + bool"
  read_text :: "pypath \<Rightarrow> error + string"
  json_loads :: "string \<Rightarrow> error + json"
  getexif :: "pypath \<Rightarrow> error + pil_exif"

section \<open>exif\_loader.\_exifread\_extract\<close>

text \<open>\<^verbatim>\<open>str.strip()\<close>, for the whitespace code points below 256.\<close>

definition isspace :: "char \<Rightarrow> bool" where
  "isspace c =
     (c \<in> set [CHR 0x09, CHR 0x0A, CHR 0x0B, CHR 0x0C, CHR 0x0D, CHR 0x1C, CHR 0x1D,
               CHR 0x1E, CHR 0x1F, CHR 0x20, CHR 0x85, CHR 0xA0])"

definition strip :: "string \<Rightarrow> string" where
  "strip s = rev (dropWhile isspace (rev (dropWhile isspace s)))"

text \<open>\<^verbatim>\<open>s or None\<close> on a string.\<close>

definition or_None :: "string \<Rightarrow> string option" where
  "or_None s = (if s = [] then None else Some s)"

text \<open>\<^verbatim>\<open>str(tags.get(key, ""))\<close>.\<close>

definition tag_str :: "tags \<Rightarrow> string \<Rightarrow> string" where
  "tag_str tgs key = (case tgs key of None \<Rightarrow> [] | Some t \<Rightarrow> printable t)"

text \<open>
  The body of the \<^verbatim>\<open>try\<close> block of \<^verbatim>\<open>_exifread_extract\<close>. A tag object is truthy, so
  \<^verbatim>\<open>lat_vals and lon_vals\<close> holds when both tags are present.
\<close>

definition exifread_extract_body :: "env \<Rightarrow> pypath \<Rightarrow> error + PhotoMeta" where
  "exifread_extract_body e p =
     (case process_file e p of Inl err \<Rightarrow> Inl err
      | Inr tgs \<Rightarrow>
        (let lat_vals = tgs ''GPS GPSLatitude'';
             lat_ref = or_None (strip (tag_str tgs ''GPS GPSLatitudeRef''));
             lon_vals = tgs ''GPS GPSLongitude'';
             lon_ref = or_None (strip (tag_str tgs ''GPS GPSLongitudeRef''));
             coords = (case (lat_vals, lon_vals) of
                         (Some tlat, Some tlon) \<Rightarrow>
                           (ratios_to_decimal (pyfloat e) (values' tlat) lat_ref,
                            ratios_to_decimal (pyfloat e) (values' tlon) lon_ref)
                       | _ \<Rightarrow> (None, None));
             dt = (case tgs ''EXIF DateTimeOriginal'' of Some t \<Rightarrow> Some (printable t)
                   | None \<Rightarrow>
                     (case tgs ''Image DateTime'' of Some t \<Rightarrow> Some (printable t)
                      | None \<Rightarrow> None))
         in Inr \<lparr>path = p, lat = fst coords, lon = snd coords, datetime = dt,
                 make' = or_None (tag_str tgs ''Image Make''),
                 model = or_None (tag_str tgs ''Image Model''),
                 extra = Map.empty\<rparr>))"

definition exifread_extract :: "env \<Rightarrow> pypath \<Rightarrow> PhotoMeta option" where
  "exifread_extract e p =
     (case exifread_extract_body e p of Inl err \<Rightarrow> None | Inr m \<Rightarrow> Some m)"

section \<open>exif\_loader.\_read\_takeout\_sidecar\<close>

text \<open>\<^verbatim>\<open>d.get(key)\<close> on a decoded JSON object: \<^verbatim>\<open>None\<close> when the key is missing.\<close>

definition dict_get :: "(string \<times> json) list \<Rightarrow> string \<Rightarrow> json" where
  "dict_get d key = (case map_of d key of None \<Rightarrow> JNull | Some v \<Rightarrow> v)"

text \<open>Python's truth value of a decoded JSON value, and \<^verbatim>\<open>a or b\<close>.\<close>

fun truthy :: "json \<Rightarrow> bool" where
  "truthy JNull = False"
| "truthy (JBool b) = b"
| "truthy (JInt i) = (i \<noteq> 0)"
| "truthy (JFloat r) = (r \<noteq> 0)"
| "truthy (JStr s) = (s \<noteq> [])"
| "truthy (JArr xs) = (xs \<noteq> [])"
| "truthy (JObj kvs) = (kvs \<noteq> [])"

definition py_or :: "json \<Rightarrow> json \<Rightarrow> json" where
  "py_or a b = (if truthy a then a else b)"

text \<open>
  \<^verbatim>\<open>float(v)\<close> on a decoded JSON value: \<^verbatim>\<open>TypeError\<close> for \<^verbatim>\<open>None\<close>, lists and dicts, and
  \<^verbatim>\<open>OverflowError\<close> for an integer that rounds beyond the largest double
  (\<open>2\<^sup>1\<^sup>0\<^sup>2\<^sup>4 - 2\<^sup>9\<^sup>7\<^sup>1\<close>), that is from \<open>2\<^sup>1\<^sup>0\<^sup>2\<^sup>4 - 2\<^sup>9\<^sup>7\<^sup>0\<close> on, as \<^verbatim>\<open>float(10**400)\<close>.
\<close>

fun float_json :: "(string \<Rightarrow> real option) \<Rightarrow> json \<Rightarrow> error + real" where
  "float_json pf (JFloat r) = Inr r"
| "float_json pf (JInt i) =
     (if \<bar>i\<bar> < 2 ^ 1024 - 2 ^ 970 then Inr (of_int i) else Inl OverflowError)"
| "float_json pf (JBool b) = Inr (if b then 1 else 0)"
| "float_json pf (JStr s) = float_str pf s"
| "float_json pf JNull = Inl TypeError"
| "float_json pf (JArr xs) = Inl TypeError"
| "float_json pf (JObj kvs) = Inl TypeError"

text \<open>\<^verbatim>\<open>float(v) if v is not None else None\<close>.\<close>

definition float_or_None :: "(string \<Rightarrow> real option) \<Rightarrow> json \<Rightarrow> error + real option" where
  "float_or_None pf v =
     (if v \<noteq> JNull
      then (case float_json pf v of Inl err \<Rightarrow> Inl err | Inr r \<Rightarrow> Inr (Some r))
      else Inr None)"

text \<open>The local function \<^verbatim>\<open>pick_latlon\<close>: one \<^verbatim>\<open>try\<close> around both conversions.\<close>

definition pick_latlon ::
  "(string \<Rightarrow> real option) \<Rightarrow> (string \<times> json) list \<Rightarrow> real option \<times> real option" where
  "pick_latlon pf d =
     (case float_or_None pf (dict_get d ''latitude'') of
        Inl err \<Rightarrow> (None, None)
      | Inr la \<Rightarrow>
        (case float_or_None pf (dict_get d ''longitude'') of
           Inl err \<Rightarrow> (None, None)
         | Inr lo \<Rightarrow> (la, lo)))"

text \<open>
  The loop \<^verbatim>\<open>for key in ("geoDataExif", "geoData", "location")\<close>; the accumulator is the
  current value of the variables \<^verbatim>\<open>lat, lon\<close>.
\<close>

fun key_loop ::
  "(string \<Rightarrow> real option) \<Rightarrow> (string \<times> json) list \<Rightarrow> string list \<Rightarrow>
   real option \<times> real option \<Rightarrow> real option \<times> real option" where
  "key_loop pf data [] acc = acc"
| "key_loop pf data (key # keys) acc =
     (case dict_get data key of
        JObj gd \<Rightarrow>
          (let ll = pick_latlon pf gd
           in if fst ll \<noteq> None \<and> snd ll \<noteq> None then ll else key_loop pf data keys ll)
      | _ \<Rightarrow> key_loop pf data keys acc)"

definition geo_keys :: "string list" where
  "geo_keys = [''geoDataExif'', ''geoData'', ''location'']"

text \<open>\<^verbatim>\<open>str(dt)\<close> on a decoded JSON value.\<close>

definition str_json :: "env \<Rightarrow> json \<Rightarrow> string" where
  "str_json e v = (case v of JStr s \<Rightarrow> s | _ \<Rightarrow> pystr e v)"

text \<open>
  The part of the loop body after a candidate has been parsed into \<open>data\<close>: \<open>Some\<close> of
  the returned triple, or \<open>None\<close> when the body falls through to the next candidate.
\<close>

definition sidecar_data ::
  "env \<Rightarrow> json \<Rightarrow> (real option \<times> real option \<times> string option) option" where
  "sidecar_data e data =
     (case data of
        JObj d \<Rightarrow>
          (let ll = key_loop (pyfloat e) d geo_keys (None, None);
               ptt = dict_get d ''photoTakenTime'';
               dt = (case ptt of
                       JObj t \<Rightarrow> py_or (dict_get t ''formatted'') (dict_get t ''timestamp'')
                     | _ \<Rightarrow> py_or (dict_get d ''creationTime'') (dict_get d ''creationTimestamp''))
           in if (fst ll \<noteq> None \<and> snd ll \<noteq> None) \<or> dt \<noteq> JNull
              then Some (fst ll, snd ll, if dt \<noteq> JNull then Some (str_json e dt) else None)
              else None)
      | _ \<Rightarrow> None)"

text \<open>
  The loop \<^verbatim>\<open>for c in candidates\<close>. \<^verbatim>\<open>c.exists()\<close> is outside the \<^verbatim>\<open>try\<close>, so what it
  raises propagates; a failure of \<^verbatim>\<open>read_text\<close> or \<^verbatim>\<open>json.loads\<close> continues with the next
  candidate.
\<close>

fun sidecar_loop ::
  "env \<Rightarrow> pypath list \<Rightarrow> error + (real option \<times> real option \<times> string option)" where
  "sidecar_loop e [] = Inr (None, None, None)"
| "sidecar_loop e (c # cs) =
     (case path_exists e c of
        Inl err \<Rightarrow> Inl err
      | Inr False \<Rightarrow> sidecar_loop e cs
      | Inr True \<Rightarrow>
        (case read_text e c of
           Inl err \<Rightarrow> sidecar_loop e cs
         | Inr txt \<Rightarrow>
           (case json_loads e txt of
              Inl err \<Rightarrow> sidecar_loop e cs
            | Inr data \<Rightarrow>
              (case sidecar_data e data of
                 Some t \<Rightarrow> Inr t
               | None \<Rightarrow> sidecar_loop e cs))))"

text \<open>The list \<^verbatim>\<open>candidates\<close>, built outside any \<^verbatim>\<open>try\<close>.\<close>

definition candidates :: "pypath \<Rightarrow> error + pypath list" where
  "candidates p =
     (case with_suffix p (suffix p @ ''.json'') of
        Inl err \<Rightarrow> Inl err
      | Inr c1 \<Rightarrow>
        (case with_suffix p ''.json'' of
           Inl err \<Rightarrow> Inl err
         | Inr c2 \<Rightarrow> Inr [c1, c2]))"

definition read_takeout_sidecar ::
  "env \<Rightarrow> pypath \<Rightarrow> error + (real option \<times> real option \<times> string option)" where
  "read_takeout_sidecar e p =
     (case candidates p of Inl err \<Rightarrow> Inl err | Inr cs \<Rightarrow> sidecar_loop e cs)"

section \<open>exif\_loader.\_pillow\_extract\<close>

text \<open>
  \<^verbatim>\<open>gps_info_raw = data.get("GPSInfo", {})\<close> and the copy into \<^verbatim>\<open>gps_data\<close>: a non-empty
  dictionary is copied; a non-zero integer offset is truthy and has no \<^verbatim>\<open>keys\<close>.
\<close>

definition gps_data_of :: "gpsinfo option \<Rightarrow> error + (string \<times> gpsval) list" where
  "gps_data_of raw =
     (case raw of
        None \<Rightarrow> Inr []
      | Some (GPSDict g) \<Rightarrow> Inr g
      | Some (GPSOffset n) \<Rightarrow> if n = 0 then Inr [] else Inl AttributeError)"

text \<open>
  \<^verbatim>\<open>dms_to_decimal(gps_data.get(k, []), gps_data.get(kref))\<close>. A value that is not a
  sequence of pairs fails to unpack inside \<^verbatim>\<open>dms_to_decimal\<close>, whose \<^verbatim>\<open>try\<close> turns that
  into \<^verbatim>\<open>None\<close>; a reference that is not a string is never \<^verbatim>\<open>in ("S", "W")\<close>.
\<close>

definition gps_ref :: "(string \<times> gpsval) list \<Rightarrow> string \<Rightarrow> string option" where
  "gps_ref g kref = (case map_of g kref of Some (Text s) \<Rightarrow> Some s | _ \<Rightarrow> None)"

definition gps_coord :: "(string \<times> gpsval) list \<Rightarrow> string \<Rightarrow> string \<Rightarrow> real option" where
  "gps_coord g k kref =
     (case map_of g k of
        None \<Rightarrow> dms_to_decimal [] (gps_ref g kref)
      | Some (Rationals dms) \<Rightarrow> dms_to_decimal dms (gps_ref g kref)
      | Some _ \<Rightarrow> None)"

text \<open>\<^verbatim>\<open>str(a or b) if (a or b) else None\<close> on two optional strings.\<close>

definition str_or :: "string option \<Rightarrow> string option \<Rightarrow> string option" where
  "str_or a b =
     (case a of
        Some s \<Rightarrow> if s \<noteq> [] then Some s else (case b of Some t \<Rightarrow> or_None t | None \<Rightarrow> None)
      | None \<Rightarrow> (case b of Some t \<Rightarrow> or_None t | None \<Rightarrow> None))"

text \<open>
  The altitude block: only a pair \<open>(num, den)\<close> with \<open>den \<noteq> 0\<close> unpacks and divides; any
  failure is passed over.
\<close>

definition altitude_extra :: "env \<Rightarrow> (string \<times> gpsval) list \<Rightarrow> string \<rightharpoonup> string" where
  "altitude_extra e g =
     (case map_of g ''GPSAltitude'' of
        Some (Rational num den) \<Rightarrow>
          if den = 0 then Map.empty else [''altitude_m'' \<mapsto> float_repr e (num / den)]
      | _ \<Rightarrow> Map.empty)"

definition pillow_extract_body :: "env \<Rightarrow> pypath \<Rightarrow> error + PhotoMeta" where
  "pillow_extract_body e p =
     (case getexif e p of Inl err \<Rightarrow> Inl err
      | Inr data \<Rightarrow>
        (case gps_data_of (GPSInfo data) of Inl err \<Rightarrow> Inl err
         | Inr g \<Rightarrow>
           Inr \<lparr>path = p,
                lat = (if g \<noteq> [] then gps_coord g ''GPSLatitude'' ''GPSLatitudeRef'' else None),
                lon = (if g \<noteq> [] then gps_coord g ''GPSLongitude'' ''GPSLongitudeRef'' else None),
                datetime = str_or (DateTimeOriginal data) (DateTime data),
                make' = str_or (Make data) None,
                model = str_or (Model data) None,
                extra = altitude_extra e g\<rparr>))"

definition pillow_extract :: "env \<Rightarrow> pypath \<Rightarrow> PhotoMeta option" where
  "pillow_extract e p =
     (case pillow_extract_body e p of Inl err \<Rightarrow> None | Inr m \<Rightarrow> Some m)"

section \<open>exif\_loader: the sentinel filter\<close>

definition drop_if_zero_coord ::
  "real option \<Rightarrow> real option \<Rightarrow> real option \<times> real option" where
  "drop_if_zero_coord lat0 lon0 =
     (case (lat0, lon0) of
        (Some a, Some b) \<Rightarrow>
          (if \<bar>a\<bar> < 1 / 10 ^ 9 \<and> \<bar>b\<bar> < 1 / 10 ^ 9 then (None, None) else (lat0, lon0))
      | _ \<Rightarrow> (lat0, lon0))"

section \<open>exif\_loader.read\_photo\_meta\<close>

text \<open>
  The strategies \<^verbatim>\<open>read_photo_meta\<close> calls are recorded, in call order, beside its result.
\<close>

datatype strategy = Exifread | Sidecar | Pillow

text \<open>\<^verbatim>\<open>if x is None and s is not None: x = s\<close>.\<close>

definition fill :: "'a option \<Rightarrow> 'a option \<Rightarrow> 'a option" where
  "fill x s = (if x = None \<and> s \<noteq> None then s else x)"

text \<open>\<^verbatim>\<open>if x is None: x = v\<close>.\<close>

definition fill_from :: "'a option \<Rightarrow> 'a option \<Rightarrow> 'a option" where
  "fill_from x v = (if x = None then v else x)"

text \<open>The last two statements: the sentinel filter and the construction of the record.\<close>

definition finish ::
  "pypath \<Rightarrow> real option \<Rightarrow> real option \<Rightarrow> string option \<Rightarrow> string option \<Rightarrow>
   string option \<Rightarrow> (string \<rightharpoonup> string) \<Rightarrow> PhotoMeta" where
  "finish p la lo dt mk md ex =
     (let ll = drop_if_zero_coord la lo
      in \<lparr>path = p, lat = fst ll, lon = snd ll, datetime = dt, make' = mk, model = md,
          extra = ex\<rparr>)"

definition read_photo_meta :: "env \<Rightarrow> pypath \<Rightarrow> (error + PhotoMeta) \<times> strategy list" where
  "read_photo_meta e p =
     (let m = exifread_extract e p;
          lat0 = (case m of Some r \<Rightarrow> lat r | None \<Rightarrow> None);
          lon0 = (case m of Some r \<Rightarrow> lon r | None \<Rightarrow> None);
          dt0 = (case m of Some r \<Rightarrow> datetime r | None \<Rightarrow> None);
          make0 = (case m of Some r \<Rightarrow> make' r | None \<Rightarrow> None);
          model0 = (case m of Some r \<Rightarrow> model r | None \<Rightarrow> None)
      in case read_takeout_sidecar e p of
           Inl err \<Rightarrow> (Inl err, [Exifread, Sidecar])
         | Inr (s_lat, s_lon, s_dt) \<Rightarrow>
           (let lat1 = fill lat0 s_lat;
                lon1 = fill lon0 s_lon;
                dt1 = fill dt0 s_dt
            in if (lat1 = None \<or> lon1 = None) \<and> m = None
               then
                 (case pillow_extract e p of
                    Some pm \<Rightarrow>
                      (Inr (finish p (fill_from lat1 (lat pm)) (fill_from lon1 (lon pm))
                              (fill_from dt1 (datetime pm)) (fill_from make0 (make' pm))
                              (fill_from model0 (model pm)) (Map.empty ++ extra pm)),
                       [Exifread, Sidecar, Pillow])
                  | None \<Rightarrow>
                      (Inr (finish p lat1 lon1 dt1 make0 model0 Map.empty),
                       [Exifread, Sidecar, Pillow]))
               else (Inr (finish p lat1 lon1 dt1 make0 model0 Map.empty),
                     [Exifread, Sidecar])))"

section \<open>Vocabulary of the claims\<close>

text \<open>
  The definitions of this section are not functions of the repository: they name notions
  the claims use, so that the properties can be compared with the source's functions.

  The complete coordinate pair found under one key of a sidecar object, if there is one:
  the key's value is an object and \<^verbatim>\<open>pick_latlon\<close> gives both a latitude and a longitude.
\<close>

definition complete_pair ::
  "(string \<Rightarrow> real option) \<Rightarrow> (string \<times> json) list \<Rightarrow> string \<Rightarrow> (real \<times> real) option" where
  "complete_pair pf data key =
     (case dict_get data key of
        JObj gd \<Rightarrow> (case pick_latlon pf gd of (Some a, Some b) \<Rightarrow> Some (a, b) | _ \<Rightarrow> None)
      | _ \<Rightarrow> None)"

text \<open>
  The claims' search order: the complete pair of the first of \<^verbatim>\<open>geoDataExif\<close>,
  \<^verbatim>\<open>geoData\<close>, \<^verbatim>\<open>location\<close> that has one.
\<close>

definition first_complete ::
  "(string \<Rightarrow> real option) \<Rightarrow> (string \<times> json) list \<Rightarrow> (real \<times> real) option" where
  "first_complete pf d =
     (case complete_pair pf d ''geoDataExif'' of
        Some ab \<Rightarrow> Some ab
      | None \<Rightarrow>
        (case complete_pair pf d ''geoData'' of
           Some ab \<Rightarrow> Some ab
         | None \<Rightarrow> complete_pair pf d ''location''))"

text \<open>
  The datetime of a sidecar object, in the spec's words: the \<^verbatim>\<open>formatted\<close> field of the
  \<^verbatim>\<open>photoTakenTime\<close> object, else its \<^verbatim>\<open>timestamp\<close> field; without such an object, the
  top-level \<^verbatim>\<open>creationTime\<close>, else \<^verbatim>\<open>creationTimestamp\<close>; as a string.
\<close>

definition sidecar_datetime :: "env \<Rightarrow> (string \<times> json) list \<Rightarrow> string option" where
  "sidecar_datetime e d =
     (let v = (case dict_get d ''photoTakenTime'' of
                 JObj t \<Rightarrow> py_or (dict_get t ''formatted'') (dict_get t ''timestamp'')
               | _ \<Rightarrow> py_or (dict_get d ''creationTime'') (dict_get d ''creationTimestamp''))
      in if v = JNull then None else Some (str_json e v))"

text \<open>
  The gate of the amended claim C3: a parsed sidecar is usable when it is a JSON object
  that holds a complete coordinate pair (under one of the three keys) or a datetime.
\<close>

definition usable :: "env \<Rightarrow> json \<Rightarrow> bool" where
  "usable e data =
     (case data of
        JObj d \<Rightarrow> first_complete (pyfloat e) d \<noteq> None \<or> sidecar_datetime e d \<noteq> None
      | _ \<Rightarrow> False)"

text \<open>
  The \<open>(latitude, longitude, datetime)\<close> triple of a parsed sidecar: the coordinates the
  key search ends with and the datetime.
\<close>

definition triple_of :: "env \<Rightarrow> json \<Rightarrow> real option \<times> real option \<times> string option" where
  "triple_of e data =
     (case data of
        JObj d \<Rightarrow>
          (fst (key_loop (pyfloat e) d geo_keys (None, None)),
           snd (key_loop (pyfloat e) d geo_keys (None, None)),
           sidecar_datetime e d)
      | _ \<Rightarrow> (None, None, None))"

text \<open>
  What one sidecar candidate contributes: its triple when it exists, can be read, parses
  and is usable; \<open>None\<close> when the candidate is passed over.
\<close>

definition candidate_result ::
  "env \<Rightarrow> pypath \<Rightarrow> (real option \<times> real option \<times> string option) option" where
  "candidate_result e c =
     (case path_exists e c of
        Inr True \<Rightarrow>
          (case read_text e c of
             Inl err \<Rightarrow> None
           | Inr txt \<Rightarrow>
             (case json_loads e txt of
                Inl err \<Rightarrow> None
              | Inr data \<Rightarrow> if usable e data then Some (triple_of e data) else None))
      | _ \<Rightarrow> None)"

section \<open>Example worlds\<close>

text \<open>
  Concrete inputs on which the properties below are evaluated. \<open>no_files\<close> is a world in
  which the photo cannot be opened by either parser and has no sidecar.
\<close>

definition no_files :: env where
  "no_files =
     \<lparr>pyfloat = (\<lambda>s. None), pystr = (\<lambda>v. []), float_repr = (\<lambda>x. []),
      process_file = (\<lambda>p. Inl OSError), path_exists = (\<lambda>p. Inr False),
      read_text = (\<lambda>p. Inl OSError), json_loads = (\<lambda>t. Inl JSONDecodeError),
      getexif = (\<lambda>p. Inl UnidentifiedImageError)\<rparr>"

definition photo :: pypath where
  "photo = \<lparr>parent = ''img'', name = ''IMG_1234.JPG''\<rparr>"

text \<open>
  \<open>with_sidecar data\<close>: the photo cannot be opened by either parser, and only its first
  sidecar candidate exists, decoding to \<open>data\<close>. \<open>two_sidecars data1 data2\<close>: both
  candidates exist; the first decodes to \<open>data1\<close>, the second to \<open>data2\<close> (the text of
  each file is identified with its name).
\<close>

definition with_sidecar :: "json \<Rightarrow> env" where
  "with_sidecar data =
     no_files\<lparr>path_exists := (\<lambda>c. Inr (name c = ''IMG_1234.JPG.json'')),
              read_text := (\<lambda>c. Inr ''(text of the sidecar)''),
              json_loads := (\<lambda>t. Inr data)\<rparr>"

definition two_sidecars :: "json \<Rightarrow> json \<Rightarrow> env" where
  "two_sidecars data1 data2 =
     no_files\<lparr>path_exists := (\<lambda>c. Inr True),
              read_text := (\<lambda>c. Inr (name c)),
              json_loads := (\<lambda>t. Inr (if t = ''IMG_1234.JPG.json'' then data1 else data2))\<rparr>"

text \<open>
  \<open>header_world tgs\<close>: the header parser reads the tags \<open>tgs\<close>, while the sidecar and the
  decoder hold other coordinates, another datetime and another camera. \<open>gps_tags\<close> is a
  complete set of tags (51 deg 30 min 26 s N, 0 deg 7 min 39 s W); \<open>camera_tags\<close> has make
  and model only.
\<close>

definition small_numbers :: "string \<Rightarrow> real option" where
  "small_numbers =
     map_of [(''0'', 0), (''7'', 7), (''26'', 26), (''30'', 30), (''39'', 39), (''51'', 51)]"

definition tag :: "string \<Rightarrow> string list \<Rightarrow> IfdTag" where
  "tag s vs = \<lparr>printable = s, values' = vs\<rparr>"

definition gps_tags :: tags where
  "gps_tags =
     map_of [(''GPS GPSLatitude'', tag ''[51, 30, 26]'' [''51'', ''30'', ''26'']),
             (''GPS GPSLatitudeRef'', tag ''N'' [''N'']),
             (''GPS GPSLongitude'', tag ''[0, 7, 39]'' [''0'', ''7'', ''39'']),
             (''GPS GPSLongitudeRef'', tag ''W'' [''W'']),
             (''EXIF DateTimeOriginal'', tag ''2020:01:01 10:00:00'' []),
             (''Image Make'', tag ''Canon'' []),
             (''Image Model'', tag ''EOS'' [])]"

definition camera_tags :: tags where
  "camera_tags = map_of [(''Image Make'', tag ''Canon'' []), (''Image Model'', tag ''EOS'' [])]"

definition other_sidecar :: json where
  "other_sidecar =
     JObj [(''geoData'', JObj [(''latitude'', JFloat 1), (''longitude'', JFloat 2)]),
           (''creationTime'', JStr ''another time'')]"

definition other_exif :: pil_exif where
  "other_exif =
     \<lparr>GPSInfo = Some (GPSDict [(''GPSLatitude'', Rationals [(7, 1), (0, 1), (0, 1)]),
                               (''GPSLatitudeRef'', Text ''S''),
                               (''GPSLongitude'', Rationals [(8, 1), (0, 1), (0, 1)]),
                               (''GPSLongitudeRef'', Text ''E'')]),
      DateTimeOriginal = Some ''1999:09:09 09:09:09'', DateTime = None,
      Make = Some ''Nikon'', Model = Some ''D1''\<rparr>"

definition header_world :: "tags \<Rightarrow> env" where
  "header_world tgs =
     (with_sidecar other_sidecar)
       \<lparr>pyfloat := small_numbers, process_file := (\<lambda>p. Inr tgs),
        getexif := (\<lambda>p. Inr other_exif)\<rparr>"

text \<open>
  \<open>zero_sidecar\<close> and \<open>zero_exif\<close> hold the pair \<open>(0, 0)\<close>, as a sidecar and as the
  decoder's EXIF.
\<close>

definition zero_exif :: pil_exif where
  "zero_exif =
     \<lparr>GPSInfo = Some (GPSDict [(''GPSLatitude'', Rationals [(0, 1), (0, 1), (0, 1)]),
                               (''GPSLatitudeRef'', Text ''N''),
                               (''GPSLongitude'', Rationals [(0, 1), (0, 1), (0, 1)]),
                               (''GPSLongitudeRef'', Text ''E'')]),
      DateTimeOriginal = None, DateTime = None, Make = None, Model = None\<rparr>"

definition zero_sidecar :: json where
  "zero_sidecar =
     JObj [(''geoData'', JObj [(''latitude'', JFloat 0), (''longitude'', JFloat 0)])]"

text \<open>
  \<open>long_photo\<close> is a photo whose file name has 255 characters. In \<open>name_limit_world\<close>
  the header parser reads it (\<open>camera_tags\<close>), no sidecar exists, and the existence test
  of a path whose name is longer than 255 characters raises \<^verbatim>\<open>OSError\<close>.
\<close>

definition long_photo :: pypath where
  "long_photo = \<lparr>parent = ''img'', name = replicate 251 CHR ''a'' @ ''.jpg''\<rparr>"

definition name_limit_world :: env where
  "name_limit_world =
     no_files\<lparr>process_file := (\<lambda>p. Inr camera_tags),
              path_exists := (\<lambda>c. if 255 < length (name c) then Inl OSError else Inr False)\<rparr>"

section \<open>Properties\<close>

lemma quotients_length: "quotients dms = Inr qs \<Longrightarrow> length qs = length dms"
  by (induction dms arbitrary: qs) (auto split: if_splits sum.splits)

subsection \<open>The two conversions\<close>

lemma split_on_notin: "c \<notin> set s \<Longrightarrow> split_on c s = [s]"
  by (induction s) auto

lemma split_on_one: "c \<notin> set a \<Longrightarrow> c \<notin> set b \<Longrightarrow> split_on c (a @ c # b) = [a, b]"
  by (induction a) (auto simp: split_on_notin)

lemma split_on_length: "length (split_on c s) = Suc (count_list s c)"
  by (induction s) (auto split: list.splits)

lemma quotients_zero: "(n, 0) \<in> set dms \<Longrightarrow> quotients dms = Inl ZeroDivisionError"
  by (induction dms) (auto split: sum.splits)

lemma dms_short: "length dms < 3 \<Longrightarrow> dms_to_decimal dms r = None"
  by (auto simp: dms_to_decimal_def dms_to_decimal_body_def item_def
      dest!: quotients_length split: sum.splits)

lemma dms_zero: "(n, 0) \<in> set dms \<Longrightarrow> dms_to_decimal dms r = None"
  by (simp add: dms_to_decimal_def dms_to_decimal_body_def quotients_zero)

lemma dms_triple:
  "dms_to_decimal [(n1, d1), (n2, d2), (n3, d3)] r =
     (if d1 = 0 \<or> d2 = 0 \<or> d3 = 0 then None
      else Some ((if r = Some ''S'' \<or> r = Some ''W'' then - 1 else 1) *
                 (n1 / d1 + n2 / d2 / 60 + n3 / d3 / 3600)))"
  by (simp add: dms_to_decimal_def dms_to_decimal_body_def item_def)

lemma to_floats_length: "to_floats pf ps = Inr vs \<Longrightarrow> length vs = length ps"
  by (induction ps arbitrary: vs) (auto split: sum.splits)

lemma to_floats_fail:
  "s \<in> set ps \<Longrightarrow> to_float pf s = Inl err \<Longrightarrow> \<exists>err'. to_floats pf ps = Inl err'"
  by (induction ps) (auto split: sum.splits)

lemma ratios_not3: "length ps \<noteq> 3 \<Longrightarrow> ratios_to_decimal pf ps r = None"
  by (auto simp: ratios_to_decimal_def ratios_to_decimal_body_def
      dest!: to_floats_length split: sum.splits list.splits)

lemma ratios_fail:
  "s \<in> set ps \<Longrightarrow> to_float pf s = Inl err \<Longrightarrow> ratios_to_decimal pf ps r = None"
  using to_floats_fail[of s ps pf err]
  by (auto simp: ratios_to_decimal_def ratios_to_decimal_body_def split: sum.splits list.splits)

lemma to_float_zero_den:
  "CHR ''/'' \<notin> set num \<Longrightarrow> CHR ''/'' \<notin> set den \<Longrightarrow> pf den = Some 0 \<Longrightarrow>
   \<exists>err. to_float pf (num @ ''/'' @ den) = Inl err"
  by (auto simp: to_float_def split_on_one float_str_def split: option.splits)

lemma to_float_unparseable:
  "CHR ''/'' \<notin> set s \<Longrightarrow> pf s = None \<Longrightarrow> to_float pf s = Inl ValueError"
  by (auto simp: to_float_def float_str_def)

lemma to_float_unparseable_ratio:
  "CHR ''/'' \<notin> set num \<Longrightarrow> CHR ''/'' \<notin> set den \<Longrightarrow> pf num = None \<or> pf den = None \<Longrightarrow>
   to_float pf (num @ ''/'' @ den) = Inl ValueError"
  by (auto simp: to_float_def split_on_one float_str_def split: option.splits)

lemma to_float_many: "1 < count_list s CHR ''/'' \<Longrightarrow> to_float pf s = Inl ValueError"
  using split_on_length[of "CHR ''/''" s]
  by (auto simp: to_float_def split: list.splits)

subsection \<open>Candidate names\<close>

lemma takeWhile_rev_less: "c \<in> set s \<Longrightarrow> length (takeWhile (\<lambda>x. x \<noteq> c) (rev s)) < length s"
proof -
  assume "c \<in> set s"
  let ?t = "takeWhile (\<lambda>x. x \<noteq> c) (rev s)"
  have neq: "?t \<noteq> rev s"
    using \<open>c \<in> set s\<close> by (auto simp: takeWhile_eq_all_conv)
  have le: "length ?t \<le> length (rev s)"
    by (rule length_takeWhile_le)
  have "length ?t \<noteq> length (rev s)"
  proof
    assume eq: "length ?t = length (rev s)"
    have "?t = take (length ?t) (rev s)" by (rule takeWhile_eq_take)
    with eq have "?t = rev s" by simp
    with neq show False ..
  qed
  with le show ?thesis by simp
qed

lemma rfind_nth:
  assumes "c \<in> set s"
  shows "0 \<le> rfind c s \<and> nat (rfind c s) < length s \<and> s ! nat (rfind c s) = c"
proof -
  let ?k = "length (takeWhile (\<lambda>x. x \<noteq> c) (rev s))"
  have k: "?k < length s" using assms by (rule takeWhile_rev_less)
  then have "?k < length (rev s)" by simp
  then have "\<not> (rev s ! ?k \<noteq> c)" by (rule nth_length_takeWhile)
  then have "s ! (length s - Suc ?k) = c" using k by (simp add: rev_nth)
  moreover have "rfind c s = int (length s - Suc ?k)" using assms k by (simp add: rfind_def)
  then have "0 \<le> rfind c s" and "nat (rfind c s) = length s - Suc ?k" by simp_all
  ultimately show ?thesis using k by (simp del: of_nat_diff)
qed

lemma suffix_cases:
  "suffix p = [] \<or> (\<exists>i. i < length (name p) \<and> suffix p = drop i (name p) \<and> name p ! i = CHR ''.'')"
proof (cases "CHR ''.'' \<in> set (name p)")
  case True
  from rfind_nth[OF True] show ?thesis
    by (auto simp: suffix_def Let_def)
next
  case False
  then show ?thesis by (simp add: suffix_def rfind_def)
qed

lemma suffix_stem: "take (length (name p) - length (suffix p)) (name p) @ suffix p = name p"
  using suffix_cases[of p] by (auto simp: min_def)

lemma suffix_dot: "suffix p \<noteq> [] \<Longrightarrow> take 1 (suffix p) = ''.''"
  using suffix_cases[of p] by (auto simp: take_Suc_conv_app_nth  take_drop hd_drop_conv_nth take_Suc)

lemma suffix_subset: "set (suffix p) \<subseteq> set (name p)"
  using suffix_cases[of p] by (auto dest: in_set_dropD)

lemma candidates_names:
  assumes "name p \<noteq> []" and "CHR ''/'' \<notin> set (name p)"
  shows "candidates p =
     Inr [p\<lparr>name := name p @ ''.json''\<rparr>,
          p\<lparr>name := take (length (name p) - length (suffix p)) (name p) @ ''.json''\<rparr>]"
proof -
  have a: "CHR ''/'' \<notin> set (suffix p)" using assms(2) suffix_subset[of p] by auto
  have b: "take 1 (suffix p @ ''.json'') = ''.''"
    using suffix_dot[of p] by (cases "suffix p") auto
  have c: "with_suffix p (suffix p @ ''.json'') = Inr (p\<lparr>name := name p @ ''.json''\<rparr>)"
  proof (cases "suffix p = []")
    case True
    then show ?thesis using assms by (simp add: with_suffix_def)
  next
    case False
    have "take (length (name p) - length (suffix p)) (name p) @ suffix p @ ''.json'' = name p @ ''.json''"
      using suffix_stem[of p] by (metis append_assoc)
    then show ?thesis using False assms a b by (simp add: with_suffix_def)
  qed
  have d: "with_suffix p ''.json'' = Inr (p\<lparr>name := take (length (name p) - length (suffix p)) (name p) @ ''.json''\<rparr>)"
    using assms by (simp add: with_suffix_def)
  show ?thesis by (simp add: candidates_def c d)
qed

lemma candidates_empty_name: "name p = [] \<Longrightarrow> candidates p = Inl ValueError"
  by (auto simp: candidates_def with_suffix_def suffix_def rfind_def)

subsection \<open>The key search of the sidecar reader\<close>

lemma pick_latlon_numeric:
  "dict_get g ''latitude'' = JFloat x \<Longrightarrow> dict_get g ''longitude'' = JFloat y \<Longrightarrow>
   pick_latlon pf g = (Some x, Some y)"
  by (simp add: pick_latlon_def float_or_None_def)

lemma key_loop_step_complete:
  "complete_pair pf d k = Some (a, b) \<Longrightarrow> key_loop pf d (k # ks) acc = (Some a, Some b)"
  by (auto simp: complete_pair_def Let_def split: json.splits option.splits prod.splits)

lemma key_loop_step_object:
  "dict_get d k = JObj g \<Longrightarrow> complete_pair pf d k = None \<Longrightarrow>
   key_loop pf d (k # ks) acc = key_loop pf d ks (pick_latlon pf g)"
  by (auto simp: complete_pair_def Let_def split: json.splits option.splits prod.splits)

lemma key_loop_step_other:
  "\<forall>g. dict_get d k \<noteq> JObj g \<Longrightarrow> key_loop pf d (k # ks) acc = key_loop pf d ks acc"
  by (auto split: json.splits)

lemma complete_pair_None_object:
  "dict_get d k = JObj g \<Longrightarrow>
   (complete_pair pf d k = None) = (fst (pick_latlon pf g) = None \<or> snd (pick_latlon pf g) = None)"
  by (auto simp: complete_pair_def split: option.splits prod.splits)

lemma key_loop_incomplete:
  "complete_pair pf d k = None \<Longrightarrow>
   key_loop pf d (k # ks) acc =
     key_loop pf d ks (case dict_get d k of JObj g \<Rightarrow> pick_latlon pf g | _ \<Rightarrow> acc)"
  by (auto simp: complete_pair_def Let_def split: json.splits option.splits prod.splits)

lemma key_loop_never_complete:
  "\<forall>k \<in> set ks. complete_pair pf d k = None \<Longrightarrow> fst acc = None \<or> snd acc = None \<Longrightarrow>
   fst (key_loop pf d ks acc) = None \<or> snd (key_loop pf d ks acc) = None"
proof (induction ks arbitrary: acc)
  case Nil
  then show ?case by simp
next
  case (Cons k ks)
  have inc: "complete_pair pf d k = None" using Cons.prems(1) by simp
  let ?acc = "case dict_get d k of JObj g \<Rightarrow> pick_latlon pf g | _ \<Rightarrow> acc"
  have "fst ?acc = None \<or> snd ?acc = None"
    using inc Cons.prems(2)
    by (auto simp: complete_pair_def split: json.splits option.splits prod.splits)
  moreover have "\<forall>k \<in> set ks. complete_pair pf d k = None" using Cons.prems(1) by simp
  ultimately have "fst (key_loop pf d ks ?acc) = None \<or> snd (key_loop pf d ks ?acc) = None"
    by (rule Cons.IH[rotated])
  then show ?case using key_loop_incomplete[OF inc] by simp
qed

lemma key_loop_first_complete:
  "(key_loop pf d geo_keys (None, None) = (Some a, Some b)) = (first_complete pf d = Some (a, b))"
proof (cases "complete_pair pf d ''geoDataExif''")
  case (Some ab)
  then have c: "complete_pair pf d ''geoDataExif'' = Some (fst ab, snd ab)" by simp
  have "key_loop pf d geo_keys (None, None) = (Some (fst ab), Some (snd ab))"
    unfolding geo_keys_def by (rule key_loop_step_complete[OF c])
  then show ?thesis by (cases ab) (auto simp: first_complete_def Some)
next
  case n1: None
  show ?thesis
  proof (cases "complete_pair pf d ''geoData''")
    case (Some ab)
    then have c: "complete_pair pf d ''geoData'' = Some (fst ab, snd ab)" by simp
    have "key_loop pf d geo_keys (None, None) = (Some (fst ab), Some (snd ab))"
      unfolding geo_keys_def
      by (simp only: key_loop_incomplete[OF n1] key_loop_step_complete[OF c])
    then show ?thesis by (cases ab) (auto simp: first_complete_def n1 Some)
  next
    case n2: None
    show ?thesis
    proof (cases "complete_pair pf d ''location''")
      case (Some ab)
      then have c: "complete_pair pf d ''location'' = Some (fst ab, snd ab)" by simp
      have "key_loop pf d geo_keys (None, None) = (Some (fst ab), Some (snd ab))"
        unfolding geo_keys_def
        by (simp only: key_loop_incomplete[OF n1] key_loop_incomplete[OF n2]
            key_loop_step_complete[OF c])
      then show ?thesis by (cases ab) (auto simp: first_complete_def n1 n2 Some)
    next
      case n3: None
      have "fst (key_loop pf d geo_keys (None, None)) = None \<or>
            snd (key_loop pf d geo_keys (None, None)) = None"
        by (rule key_loop_never_complete) (auto simp: geo_keys_def n1 n2 n3)
      then show ?thesis by (auto simp: first_complete_def n1 n2 n3)
    qed
  qed
qed

subsection \<open>The candidate loop of the sidecar reader\<close>

lemma candidates_photo:
  "candidates photo =
     Inr [\<lparr>parent = ''img'', name = ''IMG_1234.JPG.json''\<rparr>,
          \<lparr>parent = ''img'', name = ''IMG_1234.json''\<rparr>]"
  by (simp add: candidates_def with_suffix_def suffix_def rfind_def photo_def)

lemma key_loop_complete_iff:
  "(fst (key_loop pf d geo_keys (None, None)) \<noteq> None \<and>
    snd (key_loop pf d geo_keys (None, None)) \<noteq> None) =
   (first_complete pf d \<noteq> None)"
proof
  assume "fst (key_loop pf d geo_keys (None, None)) \<noteq> None \<and>
          snd (key_loop pf d geo_keys (None, None)) \<noteq> None"
  then obtain a b where "key_loop pf d geo_keys (None, None) = (Some a, Some b)"
    by (cases "key_loop pf d geo_keys (None, None)") auto
  then have "first_complete pf d = Some (a, b)" by (simp add: key_loop_first_complete)
  then show "first_complete pf d \<noteq> None" by simp
next
  assume "first_complete pf d \<noteq> None"
  then obtain a b where "first_complete pf d = Some (a, b)" by auto
  then have "key_loop pf d geo_keys (None, None) = (Some a, Some b)"
    by (simp add: key_loop_first_complete)
  then show "fst (key_loop pf d geo_keys (None, None)) \<noteq> None \<and>
             snd (key_loop pf d geo_keys (None, None)) \<noteq> None"
    by simp
qed

lemma sidecar_data_usable:
  "sidecar_data e data = (if usable e data then Some (triple_of e data) else None)"
proof (cases data)
  case (JObj d)
  show ?thesis
    using key_loop_complete_iff[of "pyfloat e" d]
    by (auto simp: JObj sidecar_data_def usable_def triple_of_def sidecar_datetime_def Let_def)
qed (simp_all add: sidecar_data_def usable_def)

lemma candidate_result_code:
  "candidate_result e c =
     (case path_exists e c of
        Inr True \<Rightarrow>
          (case read_text e c of
             Inl err \<Rightarrow> None
           | Inr txt \<Rightarrow>
             (case json_loads e txt of Inl err \<Rightarrow> None | Inr data \<Rightarrow> sidecar_data e data))
      | _ \<Rightarrow> None)"
  by (auto simp: candidate_result_def sidecar_data_usable split: sum.splits bool.splits)

lemma sidecar_loop_two:
  assumes "path_exists e c1 = Inr x1"
    and "candidate_result e c1 = None \<longrightarrow> (\<exists>x2. path_exists e c2 = Inr x2)"
  shows "sidecar_loop e [c1, c2] =
     Inr (case candidate_result e c1 of
            Some t \<Rightarrow> t
          | None \<Rightarrow> (case candidate_result e c2 of Some t \<Rightarrow> t | None \<Rightarrow> (None, None, None)))"
proof (cases "candidate_result e c1")
  case (Some t)
  then show ?thesis using assms(1)
    by (auto simp: candidate_result_code split: sum.splits bool.splits option.splits)
next
  case None
  then obtain x2 where x2: "path_exists e c2 = Inr x2" using assms(2) by auto
  have 1: "sidecar_loop e [c1, c2] = sidecar_loop e [c2]"
    using None assms(1)
    by (auto simp: candidate_result_code split: sum.splits bool.splits option.splits)
  have 2: "sidecar_loop e [c2] =
      (case candidate_result e c2 of Some t \<Rightarrow> Inr t | None \<Rightarrow> Inr (None, None, None))"
    using x2 by (auto simp: candidate_result_code split: sum.splits bool.splits option.splits)
  show ?thesis using None 1 2 by (simp split: option.splits)
qed

lemma sidecar_data_not_all_None:
  "sidecar_data e data = Some (a, b, d) \<Longrightarrow> (a \<noteq> None \<and> b \<noteq> None) \<or> d \<noteq> None"
  by (auto simp: sidecar_data_def Let_def split: json.splits if_splits)

lemma candidate_result_not_all_None:
  "candidate_result e c = Some (a, b, d) \<Longrightarrow> (a \<noteq> None \<and> b \<noteq> None) \<or> d \<noteq> None"
  by (auto simp: candidate_result_code dest: sidecar_data_not_all_None
      split: sum.splits bool.splits)

lemma candidate_result_Some:
  "(candidate_result e c = Some t) =
     (path_exists e c = Inr True \<and>
      (\<exists>txt data. read_text e c = Inr txt \<and> json_loads e txt = Inr data \<and>
                  sidecar_data e data = Some t))"
  by (auto simp: candidate_result_code split: sum.splits bool.splits)

lemma sidecar_raises: "name p = [] \<Longrightarrow> read_takeout_sidecar e p = Inl ValueError"
  by (simp add: read_takeout_sidecar_def candidates_empty_name)

lemma sidecar_exists_raises:
  "candidates p = Inr (c # cs) \<Longrightarrow> path_exists e c = Inl err \<Longrightarrow>
   read_takeout_sidecar e p = Inl err"
  by (simp add: read_takeout_sidecar_def)

lemma read_takeout_sidecar_cases:
  assumes "name p \<noteq> []" and "CHR ''/'' \<notin> set (name p)"
    and "path_exists e (p\<lparr>name := name p @ ''.json''\<rparr>) = Inr x1"
    and "candidate_result e (p\<lparr>name := name p @ ''.json''\<rparr>) = None \<longrightarrow>
         (\<exists>x2. path_exists e
            (p\<lparr>name := take (length (name p) - length (suffix p)) (name p) @ ''.json''\<rparr>) =
            Inr x2)"
  shows "read_takeout_sidecar e p =
     Inr (case candidate_result e (p\<lparr>name := name p @ ''.json''\<rparr>) of
            Some t \<Rightarrow> t
          | None \<Rightarrow>
            (case candidate_result e
                    (p\<lparr>name := take (length (name p) - length (suffix p)) (name p) @ ''.json''\<rparr>) of
               Some t \<Rightarrow> t
             | None \<Rightarrow> (None, None, None)))"
  using sidecar_loop_two[OF assms(3,4)] candidates_names[OF assms(1,2)]
  by (simp add: read_takeout_sidecar_def)

lemma candidate_result_None:
  "(candidate_result e c = None) =
     (path_exists e c \<noteq> Inr True \<or> (\<exists>err. read_text e c = Inl err) \<or>
      (\<exists>contents. read_text e c = Inr contents \<and>
         ((\<exists>err. json_loads e contents = Inl err) \<or>
          (\<exists>data. json_loads e contents = Inr data \<and> \<not> usable e data))))"
  by (auto simp: candidate_result_def split: sum.splits bool.splits)

subsection \<open>The orchestrator, case by case\<close>

lemma rpm_raise:
  "read_takeout_sidecar e p = Inl err \<Longrightarrow> read_photo_meta e p = (Inl err, [Exifread, Sidecar])"
  by (simp add: read_photo_meta_def)

lemma rpm_header:
  "exifread_extract e p = Some m \<Longrightarrow> read_takeout_sidecar e p = Inr (a, b, d) \<Longrightarrow>
   read_photo_meta e p =
     (Inr (finish p (fill (lat m) a) (fill (lon m) b) (fill (datetime m) d)
             (make' m) (model m) Map.empty),
      [Exifread, Sidecar])"
  by (simp add: read_photo_meta_def)

lemma rpm_sidecar_complete:
  "exifread_extract e p = None \<Longrightarrow> read_takeout_sidecar e p = Inr (Some a, Some b, d) \<Longrightarrow>
   read_photo_meta e p =
     (Inr (finish p (Some a) (Some b) d None None Map.empty), [Exifread, Sidecar])"
  by (simp add: read_photo_meta_def fill_def)

lemma rpm_fallback:
  "exifread_extract e p = None \<Longrightarrow> read_takeout_sidecar e p = Inr (a, b, d) \<Longrightarrow>
   a = None \<or> b = None \<Longrightarrow>
   read_photo_meta e p =
     (Inr (case pillow_extract e p of
             Some pm \<Rightarrow>
               finish p (fill_from a (lat pm)) (fill_from b (lon pm)) (fill_from d (datetime pm))
                 (make' pm) (model pm) (extra pm)
           | None \<Rightarrow> finish p a b d None None Map.empty),
      [Exifread, Sidecar, Pillow])"
  by (auto simp: read_photo_meta_def fill_def fill_from_def split: option.splits)

lemma finish_fields:
  "path (finish p la lo dt mk md ex) = p"
  "lat (finish p la lo dt mk md ex) = fst (drop_if_zero_coord la lo)"
  "lon (finish p la lo dt mk md ex) = snd (drop_if_zero_coord la lo)"
  "datetime (finish p la lo dt mk md ex) = dt"
  "make' (finish p la lo dt mk md ex) = mk"
  "model (finish p la lo dt mk md ex) = md"
  "extra (finish p la lo dt mk md ex) = ex"
  by (simp_all add: finish_def Let_def)


lemma drop_never_sentinel:
  "fst (drop_if_zero_coord la lo) = Some x \<Longrightarrow> snd (drop_if_zero_coord la lo) = Some y \<Longrightarrow>
   \<not> (\<bar>x\<bar> < 1 / 10 ^ 9 \<and> \<bar>y\<bar> < 1 / 10 ^ 9)"
  by (auto simp: drop_if_zero_coord_def split: option.splits if_splits)

lemma rpm_never_sentinel:
  assumes "fst (read_photo_meta e p) = Inr r" and "lat r = Some x" and "lon r = Some y"
  shows "\<not> (\<bar>x\<bar> < 1 / 10 ^ 9 \<and> \<bar>y\<bar> < 1 / 10 ^ 9)"
proof (cases "read_takeout_sidecar e p")
  case (Inl err)
  then show ?thesis using assms by (simp add: rpm_raise)
next
  case (Inr t)
  obtain a b d where t: "t = (a, b, d)" by (cases t) auto
  show ?thesis
  proof (cases "exifread_extract e p")
    case (Some m)
    have "r = finish p (fill (lat m) a) (fill (lon m) b) (fill (datetime m) d)
             (make' m) (model m) Map.empty"
      using assms(1) Inr t rpm_header[OF Some, of a b d] by simp
    then show ?thesis using assms(2,3)
      by (auto simp: finish_fields dest: drop_never_sentinel)
  next
    case None
    show ?thesis
    proof (cases "a = None \<or> b = None")
      case True
      show ?thesis
      proof (cases "pillow_extract e p")
        case pn: None
        have "r = finish p a b d None None Map.empty"
          using assms(1) Inr t rpm_fallback[OF None _ True, of d] pn by simp
        then show ?thesis using assms(2,3)
          by (auto simp: finish_fields dest: drop_never_sentinel)
      next
        case (Some pm)
        have "r = finish p (fill_from a (lat pm)) (fill_from b (lon pm))
                 (fill_from d (datetime pm)) (make' pm) (model pm) (extra pm)"
          using assms(1) Inr t rpm_fallback[OF None _ True, of d] Some by simp
        then show ?thesis using assms(2,3)
          by (auto simp: finish_fields dest: drop_never_sentinel)
      qed
    next
      case False
      then obtain u v where uv: "a = Some u" "b = Some v" by auto
      have "r = finish p (Some u) (Some v) d None None Map.empty"
        using assms(1) None Inr t uv rpm_sidecar_complete[of e p u v d] by simp
      then show ?thesis using assms(2,3)
        by (auto simp: finish_fields dest: drop_never_sentinel)
    qed
  qed
qed

subsection \<open>What does not depend on the decoder\<close>

lemma exifread_extract_getexif:
  "exifread_extract (e\<lparr>getexif := g\<rparr>) p = exifread_extract e p"
  by (auto simp: exifread_extract_def exifread_extract_body_def Let_def
      split: sum.splits option.splits)

lemma str_json_getexif: "str_json (e\<lparr>getexif := g\<rparr>) v = str_json e v"
  by (cases v) (simp_all add: str_json_def)

lemma sidecar_data_getexif: "sidecar_data (e\<lparr>getexif := g\<rparr>) data = sidecar_data e data"
  by (cases data) (auto simp: sidecar_data_def Let_def str_json_getexif)

lemma sidecar_loop_getexif: "sidecar_loop (e\<lparr>getexif := g\<rparr>) cs = sidecar_loop e cs"
  by (induction cs)
    (simp_all add: sidecar_data_getexif split: sum.splits bool.splits option.splits)

lemma read_takeout_sidecar_getexif:
  "read_takeout_sidecar (e\<lparr>getexif := g\<rparr>) p = read_takeout_sidecar e p"
  by (simp add: read_takeout_sidecar_def sidecar_loop_getexif split: sum.splits)

lemma rpm_no_fallback_getexif:
  assumes "Pillow \<notin> set (snd (read_photo_meta e p))"
  shows "read_photo_meta (e\<lparr>getexif := g\<rparr>) p = read_photo_meta e p"
proof (cases "read_takeout_sidecar e p")
  case (Inl err)
  then show ?thesis by (simp add: rpm_raise read_takeout_sidecar_getexif)
next
  case (Inr t)
  obtain a b d where t: "t = (a, b, d)" by (cases t) auto
  show ?thesis
  proof (cases "exifread_extract e p")
    case (Some m)
    then show ?thesis using Inr t
      by (simp add: rpm_header exifread_extract_getexif read_takeout_sidecar_getexif)
  next
    case None
    show ?thesis
    proof (cases "a = None \<or> b = None")
      case True
      then show ?thesis using assms None Inr t rpm_fallback[of e p a b d] by auto
    next
      case False
      then obtain x y where "a = Some x" "b = Some y" by auto
      then show ?thesis using None Inr t
        by (simp add: rpm_sidecar_complete exifread_extract_getexif read_takeout_sidecar_getexif)
    qed
  qed
qed

subsection \<open>The example worlds, evaluated\<close>

lemmas world_defs =
  header_world_def with_sidecar_def two_sidecars_def no_files_def
  gps_tags_def camera_tags_def tag_def small_numbers_def other_sidecar_def other_exif_def

lemmas header_defs =
  exifread_extract_def exifread_extract_body_def tag_str_def strip_def isspace_def or_None_def
  ratios_to_decimal_def ratios_to_decimal_body_def to_float_def float_str_def

lemmas sidecar_defs =
  sidecar_data_def geo_keys_def pick_latlon_def float_or_None_def dict_get_def py_or_def
  str_json_def Let_def

lemmas pillow_defs =
  pillow_extract_def pillow_extract_body_def gps_data_of_def gps_coord_def gps_ref_def
  str_or_def or_None_def altitude_extra_def dms_triple

lemma header_gps:
  "exifread_extract (header_world gps_tags) photo =
     Some \<lparr>path = photo, lat = Some (92713 / 1800), lon = Some (- (51 / 400)),
           datetime = Some ''2020:01:01 10:00:00'', make' = Some ''Canon'',
           model = Some ''EOS'', extra = Map.empty\<rparr>"
  by (simp add: header_defs world_defs)

lemma header_camera:
  "exifread_extract (header_world camera_tags) photo =
     Some \<lparr>path = photo, lat = None, lon = None, datetime = None, make' = Some ''Canon'',
           model = Some ''EOS'', extra = Map.empty\<rparr>"
  by (simp add: header_defs world_defs)

lemma sidecar_header_world:
  "read_takeout_sidecar (header_world tgs) photo = Inr (Some 1, Some 2, Some ''another time'')"
  by (simp add: read_takeout_sidecar_def candidates_photo sidecar_defs world_defs)


lemma header_no_files: "exifread_extract no_files p = None"
  by (simp add: header_defs world_defs)

lemma pillow_no_files: "pillow_extract no_files p = None"
  by (simp add: pillow_defs world_defs)

lemma sidecar_no_files: "read_takeout_sidecar no_files photo = Inr (None, None, None)"
  by (simp add: read_takeout_sidecar_def candidates_photo sidecar_defs world_defs)

lemma header_with_sidecar: "exifread_extract (with_sidecar data) p = None"
  by (simp add: header_defs world_defs)


lemma sidecar_with_sidecar:
  "read_takeout_sidecar (with_sidecar data) photo =
     Inr (case sidecar_data (with_sidecar data) data of Some t \<Rightarrow> t | None \<Rightarrow> (None, None, None))"
  by (simp add: read_takeout_sidecar_def candidates_photo with_sidecar_def no_files_def
      split: option.splits)

lemma header_camera_only:
  "exifread_extract (no_files\<lparr>process_file := (\<lambda>p. Inr camera_tags), getexif := g\<rparr>) photo =
     Some \<lparr>path = photo, lat = None, lon = None, datetime = None, make' = Some ''Canon'',
           model = Some ''EOS'', extra = Map.empty\<rparr>"
  by (simp add: header_defs world_defs)

lemma sidecar_none_exists:
  "path_exists e = (\<lambda>c. Inr False) \<Longrightarrow> read_takeout_sidecar e photo = Inr (None, None, None)"
  by (simp add: read_takeout_sidecar_def candidates_photo)

lemma pillow_other_exif:
  "pillow_extract (no_files\<lparr>getexif := (\<lambda>p. Inr other_exif)\<rparr>) photo =
     Some \<lparr>path = photo, lat = Some (- 7), lon = Some 8,
           datetime = Some ''1999:09:09 09:09:09'', make' = Some ''Nikon'',
           model = Some ''D1'', extra = Map.empty\<rparr>"
  by (simp add: pillow_defs world_defs)

lemma header_camera_zero:
  "exifread_extract ((with_sidecar zero_sidecar)\<lparr>process_file := (\<lambda>p. Inr camera_tags)\<rparr>) photo =
     Some \<lparr>path = photo, lat = None, lon = None, datetime = None, make' = Some ''Canon'',
           model = Some ''EOS'', extra = Map.empty\<rparr>"
  by (simp add: header_defs world_defs)

lemma sidecar_zero:
  "read_takeout_sidecar ((with_sidecar zero_sidecar)\<lparr>process_file := pfile\<rparr>) photo =
     Inr (Some 0, Some 0, None)"
  by (simp add: read_takeout_sidecar_def candidates_photo sidecar_defs world_defs zero_sidecar_def)

lemma pillow_zero:
  "pillow_extract (no_files\<lparr>getexif := (\<lambda>p. Inr zero_exif)\<rparr>) photo =
     Some \<lparr>path = photo, lat = Some 0, lon = Some 0, datetime = None, make' = None,
           model = None, extra = Map.empty\<rparr>"
  by (simp add: pillow_defs world_defs zero_exif_def)

section \<open>Claims\<close>

subsection \<open>C1: both coordinates or neither\<close>




subsection \<open>C2: when the decoder fallback runs\<close>

text \<open>
  C2. For every input path, \<^verbatim>\<open>_pillow_extract\<close> is invoked if and only if the header parser
  returned \<open>None\<close> and, after the sidecar merge, latitude or longitude is still \<open>None\<close>;
  a header parser success (for instance with make and model but no GPS) never triggers
  the fallback. When the header parser returned \<open>None\<close> the merged coordinates are the
  sidecar's, and the merge is reached when the sidecar reader returns. Invocation is
  read off the call log and off the result: when the log has the call, the returned record
  is the one built from the result of \<^verbatim>\<open>_pillow_extract\<close>; when it has not, nothing
  \<^verbatim>\<open>read_photo_meta\<close> returns depends on what the decoder would read.
\<close>

theorem fallback_invoked_iff:
  "(Pillow \<in> set (snd (read_photo_meta e p))) =
     (exifread_extract e p = None \<and>
      (\<exists>a b d. read_takeout_sidecar e p = Inr (a, b, d) \<and> (a = None \<or> b = None)))
   \<and> (exifread_extract e p \<noteq> None \<longrightarrow> Pillow \<notin> set (snd (read_photo_meta e p)))
   \<and> (Pillow \<in> set (snd (read_photo_meta e p)) \<longrightarrow>
        (\<exists>a b d. read_takeout_sidecar e p = Inr (a, b, d) \<and>
           fst (read_photo_meta e p) =
             Inr (case pillow_extract e p of
                    Some pm \<Rightarrow>
                      finish p (fill_from a (lat pm)) (fill_from b (lon pm))
                        (fill_from d (datetime pm)) (make' pm) (model pm) (extra pm)
                  | None \<Rightarrow> finish p a b d None None Map.empty)))
   \<and> (Pillow \<notin> set (snd (read_photo_meta e p)) \<longrightarrow>
        (\<forall>g. read_photo_meta (e\<lparr>getexif := g\<rparr>) p = read_photo_meta e p))"
proof -
  have iff: "(Pillow \<in> set (snd (read_photo_meta e p))) =
     (exifread_extract e p = None \<and>
      (\<exists>a b d. read_takeout_sidecar e p = Inr (a, b, d) \<and> (a = None \<or> b = None)))"
  proof (cases "read_takeout_sidecar e p")
    case (Inl err)
    then show ?thesis by (simp add: rpm_raise)
  next
    case (Inr t)
    obtain a b d where t: "t = (a, b, d)" by (cases t) auto
    show ?thesis
    proof (cases "exifread_extract e p")
      case (Some m)
      then show ?thesis using Inr t by (simp add: rpm_header)
    next
      case None
      show ?thesis
      proof (cases "a = None \<or> b = None")
        case True
        then show ?thesis using None Inr t rpm_fallback[of e p a b d] by auto
      next
        case False
        then obtain x y where "a = Some x" "b = Some y" by auto
        then show ?thesis using None Inr t by (simp add: rpm_sidecar_complete)
      qed
    qed
  qed
  have hdr: "exifread_extract e p \<noteq> None \<longrightarrow> Pillow \<notin> set (snd (read_photo_meta e p))"
    using iff by simp
  have built: "Pillow \<in> set (snd (read_photo_meta e p)) \<longrightarrow>
        (\<exists>a b d. read_takeout_sidecar e p = Inr (a, b, d) \<and>
           fst (read_photo_meta e p) =
             Inr (case pillow_extract e p of
                    Some pm \<Rightarrow>
                      finish p (fill_from a (lat pm)) (fill_from b (lon pm))
                        (fill_from d (datetime pm)) (make' pm) (model pm) (extra pm)
                  | None \<Rightarrow> finish p a b d None None Map.empty))"
  proof
    assume "Pillow \<in> set (snd (read_photo_meta e p))"
    then obtain a b d where n: "exifread_extract e p = None"
      and s: "read_takeout_sidecar e p = Inr (a, b, d)" and ab: "a = None \<or> b = None"
      using iff by auto
    from rpm_fallback[OF n s ab] s
    show "\<exists>a b d. read_takeout_sidecar e p = Inr (a, b, d) \<and>
           fst (read_photo_meta e p) =
             Inr (case pillow_extract e p of
                    Some pm \<Rightarrow>
                      finish p (fill_from a (lat pm)) (fill_from b (lon pm))
                        (fill_from d (datetime pm)) (make' pm) (model pm) (extra pm)
                  | None \<Rightarrow> finish p a b d None None Map.empty)"
      by simp
  qed
  have indep: "Pillow \<notin> set (snd (read_photo_meta e p)) \<longrightarrow>
        (\<forall>g. read_photo_meta (e\<lparr>getexif := g\<rparr>) p = read_photo_meta e p)"
    by (simp add: rpm_no_fallback_getexif)
  from iff hdr built indep show ?thesis by blast
qed

theorem fallback_invoked_iff_witness:
  "Pillow \<notin> set (snd (read_photo_meta
       (no_files\<lparr>process_file := (\<lambda>p. Inr camera_tags), getexif := (\<lambda>p. Inr other_exif)\<rparr>)
       photo))
   \<and> lat (projr (fst (read_photo_meta
       (no_files\<lparr>process_file := (\<lambda>p. Inr camera_tags), getexif := (\<lambda>p. Inr other_exif)\<rparr>)
       photo))) = None
   \<and> read_photo_meta
       (no_files\<lparr>process_file := (\<lambda>p. Inr camera_tags), getexif := (\<lambda>p. Inr other_exif)\<rparr>)
       photo =
     read_photo_meta (no_files\<lparr>process_file := (\<lambda>p. Inr camera_tags)\<rparr>) photo
   \<and> Pillow \<in> set (snd (read_photo_meta (no_files\<lparr>getexif := (\<lambda>p. Inr other_exif)\<rparr>) photo))
   \<and> lat (projr (fst (read_photo_meta (no_files\<lparr>getexif := (\<lambda>p. Inr other_exif)\<rparr>) photo))) =
       Some (- 7)
   \<and> lon (projr (fst (read_photo_meta (no_files\<lparr>getexif := (\<lambda>p. Inr other_exif)\<rparr>) photo))) =
       Some 8"
proof -
  let ?w1 = "no_files\<lparr>process_file := (\<lambda>p. Inr camera_tags)\<rparr>"
  let ?w1' = "no_files\<lparr>process_file := (\<lambda>p. Inr camera_tags), getexif := (\<lambda>p. Inr other_exif)\<rparr>"
  let ?w2 = "no_files\<lparr>getexif := (\<lambda>p. Inr other_exif)\<rparr>"
  note iff = fallback_invoked_iff[THEN conjunct1]
  note hdr = fallback_invoked_iff[THEN conjunct2, THEN conjunct1, rule_format]
  note built = fallback_invoked_iff[THEN conjunct2, THEN conjunct2, THEN conjunct1, rule_format]
  note indep = fallback_invoked_iff[THEN conjunct2, THEN conjunct2, THEN conjunct2, rule_format]
  have h1: "exifread_extract ?w1 photo =
     Some \<lparr>path = photo, lat = None, lon = None, datetime = None, make' = Some ''Canon'',
           model = Some ''EOS'', extra = Map.empty\<rparr>"
    using header_camera_only[of "getexif no_files"] by simp
  have s1: "read_takeout_sidecar ?w1 photo = Inr (None, None, None)"
    by (rule sidecar_none_exists) (simp add: no_files_def)
  have a: "Pillow \<notin> set (snd (read_photo_meta ?w1 photo))"
    by (rule hdr) (simp add: h1)
  have b: "read_photo_meta ?w1' photo = read_photo_meta ?w1 photo"
    by (rule indep[OF a, of "\<lambda>p. Inr other_exif"])
  have c: "lat (projr (fst (read_photo_meta ?w1 photo))) = None"
    using rpm_header[OF h1 s1]
    by (simp add: fill_def finish_def drop_if_zero_coord_def)
  have h2: "exifread_extract ?w2 photo = None"
    by (simp add: header_defs world_defs)
  have s2: "read_takeout_sidecar ?w2 photo = Inr (None, None, None)"
    by (rule sidecar_none_exists) (simp add: no_files_def)
  have d: "Pillow \<in> set (snd (read_photo_meta ?w2 photo))"
    unfolding iff using h2 s2 by simp
  obtain x y z where "read_takeout_sidecar ?w2 photo = Inr (x, y, z)"
    and r: "fst (read_photo_meta ?w2 photo) =
             Inr (case pillow_extract ?w2 photo of
                    Some pm \<Rightarrow>
                      finish photo (fill_from x (lat pm)) (fill_from y (lon pm))
                        (fill_from z (datetime pm)) (make' pm) (model pm) (extra pm)
                  | None \<Rightarrow> finish photo x y z None None Map.empty)"
    using built[OF d] by blast
  then have xyz: "x = None" "y = None" "z = None" using s2 by simp_all
  have "fst (read_photo_meta ?w2 photo) =
      Inr (finish photo (Some (- 7)) (Some 8) (Some ''1999:09:09 09:09:09'')
             (Some ''Nikon'') (Some ''D1'') Map.empty)"
    unfolding r xyz by (simp add: pillow_other_exif fill_from_def)
  then have f: "lat (projr (fst (read_photo_meta ?w2 photo))) = Some (- 7)"
    and g: "lon (projr (fst (read_photo_meta ?w2 photo))) = Some 8"
    by (simp_all add: finish_def drop_if_zero_coord_def)
  from a b c d f g show ?thesis by (simp only: simp_thms)
qed

subsection \<open>C3: the candidates of the sidecar reader\<close>

text \<open>
  C3 as stated: the sidecar reader tries the two candidate names in order, skips
  nonexistent candidates, returns the triple of the first successfully parsed JSON file,
  and returns \<open>(None, None, None)\<close> only when no sidecar exists or all candidates failed
  to parse.

  The code returns from a parsed file only behind the gate
  \<^verbatim>\<open>if lat is not None and lon is not None or dt is not None\<close>, inside
  \<^verbatim>\<open>if isinstance(data, dict)\<close>; otherwise the loop goes on. In the first world below both
  candidates exist and parse, the first to \<^verbatim>\<open>{}\<close>, and the result is the second file's
  datetime, not the first file's empty triple. In the second world the only sidecar
  parses to \<^verbatim>\<open>{"geoData": {"latitude": 1.0}}\<close> and the result is \<open>(None, None, None)\<close>,
  although a sidecar exists and was parsed.
\<close>

theorem sidecar_first_parsed_counterexample:
  "path_exists (two_sidecars (JObj []) (JObj [(''creationTime'', JStr ''2020'')]))
     \<lparr>parent = ''img'', name = ''IMG_1234.JPG.json''\<rparr> = Inr True
   \<and> read_text (two_sidecars (JObj []) (JObj [(''creationTime'', JStr ''2020'')]))
       \<lparr>parent = ''img'', name = ''IMG_1234.JPG.json''\<rparr> = Inr ''IMG_1234.JPG.json''
   \<and> json_loads (two_sidecars (JObj []) (JObj [(''creationTime'', JStr ''2020'')]))
       ''IMG_1234.JPG.json'' = Inr (JObj [])
   \<and> read_takeout_sidecar (two_sidecars (JObj []) (JObj [(''creationTime'', JStr ''2020'')]))
       photo = Inr (None, None, Some ''2020'')
   \<and> path_exists (with_sidecar (JObj [(''geoData'', JObj [(''latitude'', JFloat 1)])]))
       \<lparr>parent = ''img'', name = ''IMG_1234.JPG.json''\<rparr> = Inr True
   \<and> json_loads (with_sidecar (JObj [(''geoData'', JObj [(''latitude'', JFloat 1)])]))
       ''(text of the sidecar)'' = Inr (JObj [(''geoData'', JObj [(''latitude'', JFloat 1)])])
   \<and> read_takeout_sidecar (with_sidecar (JObj [(''geoData'', JObj [(''latitude'', JFloat 1)])]))
       photo = Inr (None, None, None)"
  by (simp add: read_takeout_sidecar_def candidates_photo sidecar_defs two_sidecars_def
      with_sidecar_def no_files_def)

text \<open>
  C3, amended: for a path with a file name, the candidates are the name with \<^verbatim>\<open>.json\<close>
  appended and the name with its extension replaced by \<^verbatim>\<open>.json\<close>, tried in that order.
  A candidate is passed over (\<open>candidate_result\<close> is \<open>None\<close>) when it does not exist,
  cannot be read, cannot be parsed, or is not usable: not a JSON object, or an object
  holding neither a complete coordinate pair nor a datetime. Provided the existence test
  of each candidate that is tried returns (it is outside the \<^verbatim>\<open>try\<close>, so what it raises
  propagates), the reader returns the triple of the first candidate not passed over, and
  \<open>(None, None, None)\<close> exactly when both are passed over. The code's gate is this one:
  the loop body returns the triple of a parsed file exactly when the file is usable.
\<close>

theorem sidecar_first_usable_candidate:
  assumes "name p \<noteq> []" and "CHR ''/'' \<notin> set (name p)"
    and "c1 = p\<lparr>name := name p @ ''.json''\<rparr>"
    and "c2 = p\<lparr>name := take (length (name p) - length (suffix p)) (name p) @ ''.json''\<rparr>"
    and "path_exists e c1 = Inr x1"
    and "candidate_result e c1 = None \<longrightarrow> (\<exists>x2. path_exists e c2 = Inr x2)"
  shows "candidates p = Inr [c1, c2]
     \<and> read_takeout_sidecar e p =
         Inr (case candidate_result e c1 of
                Some t \<Rightarrow> t
              | None \<Rightarrow>
                (case candidate_result e c2 of Some t \<Rightarrow> t | None \<Rightarrow> (None, None, None)))
     \<and> (read_takeout_sidecar e p = Inr (None, None, None)) =
         (candidate_result e c1 = None \<and> candidate_result e c2 = None)
     \<and> (\<forall>data. sidecar_data e data =
                  (if usable e data then Some (triple_of e data) else None))
     \<and> (\<forall>d. usable e (JObj d) =
               (first_complete (pyfloat e) d \<noteq> None \<or> sidecar_datetime e d \<noteq> None))
     \<and> (\<forall>c. (candidate_result e c = None) =
               (path_exists e c \<noteq> Inr True \<or> (\<exists>err. read_text e c = Inl err) \<or>
                (\<exists>contents. read_text e c = Inr contents \<and>
                   ((\<exists>err. json_loads e contents = Inl err) \<or>
                    (\<exists>data. json_loads e contents = Inr data \<and> \<not> usable e data)))))"
proof -
  have cs: "candidates p = Inr [c1, c2]"
    using candidates_names[OF assms(1,2)] assms(3,4) by simp
  have r: "read_takeout_sidecar e p =
         Inr (case candidate_result e c1 of
                Some t \<Rightarrow> t
              | None \<Rightarrow>
                (case candidate_result e c2 of Some t \<Rightarrow> t | None \<Rightarrow> (None, None, None)))"
    using sidecar_loop_two[OF assms(5,6)] cs by (simp add: read_takeout_sidecar_def)
  have n: "(read_takeout_sidecar e p = Inr (None, None, None)) =
         (candidate_result e c1 = None \<and> candidate_result e c2 = None)"
    unfolding r
    using candidate_result_not_all_None[of e c1] candidate_result_not_all_None[of e c2]
    by (auto split: option.splits)
  have g: "\<forall>data. sidecar_data e data =
                  (if usable e data then Some (triple_of e data) else None)"
    by (simp add: sidecar_data_usable)
  have u: "\<forall>d. usable e (JObj d) =
               (first_complete (pyfloat e) d \<noteq> None \<or> sidecar_datetime e d \<noteq> None)"
    by (simp add: usable_def)
  have po: "\<forall>c. (candidate_result e c = None) =
               (path_exists e c \<noteq> Inr True \<or> (\<exists>err. read_text e c = Inl err) \<or>
                (\<exists>contents. read_text e c = Inr contents \<and>
                   ((\<exists>err. json_loads e contents = Inl err) \<or>
                    (\<exists>data. json_loads e contents = Inr data \<and> \<not> usable e data))))"
    using candidate_result_None by blast
  from cs r n g u po show ?thesis by (simp only: simp_thms)
qed

theorem sidecar_first_usable_candidate_witness:
  "candidates photo =
     Inr [photo\<lparr>name := ''IMG_1234.JPG.json''\<rparr>, photo\<lparr>name := ''IMG_1234.json''\<rparr>]
   \<and> read_takeout_sidecar
       (two_sidecars (JObj [(''geoData'', JObj [(''latitude'', JFloat 1)])])
          (JObj [(''geoData'', JObj [(''latitude'', JFloat 1), (''longitude'', JFloat 2)])]))
       photo = Inr (Some 1, Some 2, None)"
proof -
  let ?d1 = "[(''geoData'', JObj [(''latitude'', JFloat 1)])]"
  let ?d2 = "[(''geoData'', JObj [(''latitude'', JFloat 1), (''longitude'', JFloat 2)])]"
  let ?w = "two_sidecars (JObj ?d1) (JObj ?d2)"
  let ?c1 = "photo\<lparr>name := ''IMG_1234.JPG.json''\<rparr>"
  let ?c2 = "photo\<lparr>name := ''IMG_1234.json''\<rparr>"
  have n: "name photo \<noteq> []" and sl: "CHR ''/'' \<notin> set (name photo)"
    by (simp_all add: photo_def)
  have c1: "?c1 = photo\<lparr>name := name photo @ ''.json''\<rparr>"
    by (simp add: photo_def)
  have c2: "?c2 =
      photo\<lparr>name := take (length (name photo) - length (suffix photo)) (name photo) @ ''.json''\<rparr>"
    by (simp add: photo_def suffix_def rfind_def)
  have x1: "path_exists ?w ?c1 = Inr True"
    by (simp add: two_sidecars_def no_files_def)
  have x2: "candidate_result ?w ?c1 = None \<longrightarrow> (\<exists>x2. path_exists ?w ?c2 = Inr x2)"
    by (auto simp: two_sidecars_def no_files_def)
  note inst = sidecar_first_usable_candidate[OF n sl c1 c2 x1 x2]
  have fc1: "first_complete (pyfloat ?w) ?d1 = None"
    by (simp add: first_complete_def complete_pair_def pick_latlon_def float_or_None_def
        dict_get_def)
  have fc2: "first_complete (pyfloat ?w) ?d2 = Some (1, 2)"
    by (simp add: first_complete_def complete_pair_def pick_latlon_def float_or_None_def
        dict_get_def)
  have dt1: "sidecar_datetime ?w ?d1 = None" and dt2: "sidecar_datetime ?w ?d2 = None"
    by (simp_all add: sidecar_datetime_def dict_get_def py_or_def)
  have u1: "\<not> usable ?w (JObj ?d1)" by (simp add: usable_def fc1 dt1)
  have u2: "usable ?w (JObj ?d2)" by (simp add: usable_def fc2)
  have k2: "key_loop (pyfloat ?w) ?d2 geo_keys (None, None) = (Some 1, Some 2)"
    using fc2 by (simp add: key_loop_first_complete)
  have r1: "candidate_result ?w ?c1 = None"
    using u1 by (simp add: candidate_result_def two_sidecars_def no_files_def photo_def)
  have r2: "candidate_result ?w ?c2 = Some (Some 1, Some 2, None)"
    using u2 k2 dt2
    by (simp add: candidate_result_def triple_of_def two_sidecars_def no_files_def photo_def)
  show ?thesis
    using inst[THEN conjunct1] inst[THEN conjunct2, THEN conjunct1] r1 r2 by simp
qed

subsection \<open>C4: the sentinel filter\<close>

text \<open>
  C4. For every coordinate pair with both components present: if both absolute values
  are below \<open>10\<^sup>-\<^sup>9\<close>, \<^verbatim>\<open>_drop_if_zero_coord\<close> replaces the pair with \<open>(None, None)\<close>; if
  at least one absolute value is \<open>10\<^sup>-\<^sup>9\<close> or more (for instance \<open>(0.0, 5.0)\<close>), the pair
  is returned unchanged; a pair with a \<open>None\<close> component is returned unchanged. It is the
  filter \<^verbatim>\<open>read_photo_meta\<close> applies, on every path to its \<^verbatim>\<open>return\<close>: whichever strategies
  contributed (a header record, with or without coordinates, filled from the sidecar; a
  complete sidecar pair without a header record; the decoder's record or nothing after
  an incomplete sidecar pair), the coordinates of the returned record are the filter's
  result on the merged pair, so no returned record carries a pair with both components
  below \<open>10\<^sup>-\<^sup>9\<close>.
\<close>

theorem sentinel_filter:
  "(\<bar>a\<bar> < 1 / 10 ^ 9 \<and> \<bar>b\<bar> < 1 / 10 ^ 9 \<longrightarrow>
      drop_if_zero_coord (Some a) (Some b) = (None, None))
   \<and> (1 / 10 ^ 9 \<le> \<bar>a\<bar> \<or> 1 / 10 ^ 9 \<le> \<bar>b\<bar> \<longrightarrow>
      drop_if_zero_coord (Some a) (Some b) = (Some a, Some b))
   \<and> drop_if_zero_coord None lo = (None, lo)
   \<and> drop_if_zero_coord la None = (la, None)
   \<and> drop_if_zero_coord (Some 0) (Some 5) = (Some 0, Some 5)
   \<and> (exifread_extract e p = Some m \<and> lat m = Some a \<and> lon m = Some b \<and>
      fst (read_photo_meta e p) = Inr r \<longrightarrow>
      (lat r, lon r) = drop_if_zero_coord (Some a) (Some b))
   \<and> (exifread_extract e p = None \<and> read_takeout_sidecar e p = Inr (Some a, Some b, d) \<and>
      fst (read_photo_meta e p) = Inr r \<longrightarrow>
      (lat r, lon r) = drop_if_zero_coord (Some a) (Some b))
   \<and> (exifread_extract e p = Some m \<and> read_takeout_sidecar e p = Inr (sa, sb, sd) \<and>
      fst (read_photo_meta e p) = Inr r \<longrightarrow>
      (lat r, lon r) = drop_if_zero_coord (fill (lat m) sa) (fill (lon m) sb))
   \<and> (exifread_extract e p = None \<and> read_takeout_sidecar e p = Inr (sa, sb, sd) \<and>
      (sa = None \<or> sb = None) \<and> pillow_extract e p = Some pm \<and>
      fst (read_photo_meta e p) = Inr r \<longrightarrow>
      (lat r, lon r) = drop_if_zero_coord (fill_from sa (lat pm)) (fill_from sb (lon pm)))
   \<and> (exifread_extract e p = None \<and> read_takeout_sidecar e p = Inr (sa, sb, sd) \<and>
      (sa = None \<or> sb = None) \<and> pillow_extract e p = None \<and>
      fst (read_photo_meta e p) = Inr r \<longrightarrow>
      (lat r, lon r) = drop_if_zero_coord sa sb)
   \<and> (fst (read_photo_meta e p) = Inr r \<and> lat r = Some x \<and> lon r = Some y \<longrightarrow>
      \<not> (\<bar>x\<bar> < 1 / 10 ^ 9 \<and> \<bar>y\<bar> < 1 / 10 ^ 9))"
proof (intro conjI impI)
  show "\<bar>a\<bar> < 1 / 10 ^ 9 \<and> \<bar>b\<bar> < 1 / 10 ^ 9 \<Longrightarrow>
      drop_if_zero_coord (Some a) (Some b) = (None, None)"
    by (simp add: drop_if_zero_coord_def)
  show "1 / 10 ^ 9 \<le> \<bar>a\<bar> \<or> 1 / 10 ^ 9 \<le> \<bar>b\<bar> \<Longrightarrow>
      drop_if_zero_coord (Some a) (Some b) = (Some a, Some b)"
    by (auto simp: drop_if_zero_coord_def)
  show "drop_if_zero_coord None lo = (None, lo)"
    by (simp add: drop_if_zero_coord_def)
  show "drop_if_zero_coord la None = (la, None)"
    by (simp add: drop_if_zero_coord_def split: option.splits)
  show "drop_if_zero_coord (Some 0) (Some 5) = (Some 0, Some 5)"
    by (simp add: drop_if_zero_coord_def)
next
  assume h: "exifread_extract e p = Some m \<and> lat m = Some a \<and> lon m = Some b \<and>
      fst (read_photo_meta e p) = Inr r"
  show "(lat r, lon r) = drop_if_zero_coord (Some a) (Some b)"
  proof (cases "read_takeout_sidecar e p")
    case (Inl err)
    then show ?thesis using h by (simp add: rpm_raise)
  next
    case (Inr t)
    obtain ta tb td where "t = (ta, tb, td)" by (cases t) auto
    then show ?thesis using h Inr rpm_header[of e p m ta tb td]
      by (auto simp: fill_def finish_fields)
  qed
next
  assume h: "exifread_extract e p = None \<and> read_takeout_sidecar e p = Inr (Some a, Some b, d) \<and>
      fst (read_photo_meta e p) = Inr r"
  then show "(lat r, lon r) = drop_if_zero_coord (Some a) (Some b)"
    using rpm_sidecar_complete[of e p a b d] by (auto simp: finish_fields)
next
  assume h: "exifread_extract e p = Some m \<and> read_takeout_sidecar e p = Inr (sa, sb, sd) \<and>
      fst (read_photo_meta e p) = Inr r"
  then show "(lat r, lon r) = drop_if_zero_coord (fill (lat m) sa) (fill (lon m) sb)"
    using rpm_header[of e p m sa sb sd] by (auto simp: finish_fields)
next
  assume h: "exifread_extract e p = None \<and> read_takeout_sidecar e p = Inr (sa, sb, sd) \<and>
      (sa = None \<or> sb = None) \<and> pillow_extract e p = Some pm \<and>
      fst (read_photo_meta e p) = Inr r"
  then show "(lat r, lon r) =
      drop_if_zero_coord (fill_from sa (lat pm)) (fill_from sb (lon pm))"
    using rpm_fallback[of e p sa sb sd] by (auto simp: finish_fields)
next
  assume h: "exifread_extract e p = None \<and> read_takeout_sidecar e p = Inr (sa, sb, sd) \<and>
      (sa = None \<or> sb = None) \<and> pillow_extract e p = None \<and>
      fst (read_photo_meta e p) = Inr r"
  then show "(lat r, lon r) = drop_if_zero_coord sa sb"
    using rpm_fallback[of e p sa sb sd] by (auto simp: finish_fields)
next
  assume h: "fst (read_photo_meta e p) = Inr r \<and> lat r = Some x \<and> lon r = Some y"
  then show "\<not> (\<bar>x\<bar> < 1 / 10 ^ 9 \<and> \<bar>y\<bar> < 1 / 10 ^ 9)"
    using rpm_never_sentinel[of e p r x y] by simp
qed

theorem sentinel_filter_witness:
  "drop_if_zero_coord (Some 0) (Some 0) = (None, None)
   \<and> drop_if_zero_coord (Some (1 / 10 ^ 10)) (Some (- (1 / 10 ^ 10))) = (None, None)
   \<and> drop_if_zero_coord (Some 0) (Some 5) = (Some 0, Some 5)
   \<and> lat (projr (fst (read_photo_meta (header_world gps_tags) photo))) = Some (92713 / 1800)
   \<and> lat (projr (fst (read_photo_meta (with_sidecar zero_sidecar) photo))) = None
   \<and> lat (projr (fst (read_photo_meta
        ((with_sidecar zero_sidecar)\<lparr>process_file := (\<lambda>p. Inr camera_tags)\<rparr>) photo))) = None
   \<and> lon (projr (fst (read_photo_meta
        ((with_sidecar zero_sidecar)\<lparr>process_file := (\<lambda>p. Inr camera_tags)\<rparr>) photo))) = None
   \<and> lat (projr (fst (read_photo_meta (no_files\<lparr>getexif := (\<lambda>p. Inr zero_exif)\<rparr>) photo))) =
       None
   \<and> lon (projr (fst (read_photo_meta (no_files\<lparr>getexif := (\<lambda>p. Inr zero_exif)\<rparr>) photo))) =
       None"
proof -
  let ?w = "header_world gps_tags"
  let ?z = "with_sidecar zero_sidecar"
  let ?c = "(with_sidecar zero_sidecar)\<lparr>process_file := (\<lambda>p. Inr camera_tags)\<rparr>"
  let ?p = "no_files\<lparr>getexif := (\<lambda>p. Inr zero_exif)\<rparr>"
  have 1: "drop_if_zero_coord (Some 0) (Some 0) = (None, None)"
    using sentinel_filter[THEN conjunct1, of 0 0] by simp
  have 2: "drop_if_zero_coord (Some (1 / 10 ^ 10)) (Some (- (1 / 10 ^ 10))) = (None, None)"
    using sentinel_filter[THEN conjunct1, of "1 / 10 ^ 10" "- (1 / 10 ^ 10)"] by simp
  have 3: "drop_if_zero_coord (Some 0) (Some 5) = (Some 0, Some 5)"
    using sentinel_filter[THEN conjunct2, THEN conjunct1, of 0 5] by simp
  note hdr = sentinel_filter[THEN conjunct2, THEN conjunct2, THEN conjunct2, THEN conjunct2,
      THEN conjunct2, THEN conjunct1, rule_format]
  note sc = sentinel_filter[THEN conjunct2, THEN conjunct2, THEN conjunct2, THEN conjunct2,
      THEN conjunct2, THEN conjunct2, THEN conjunct1, rule_format]
  note mrg = sentinel_filter[THEN conjunct2, THEN conjunct2, THEN conjunct2, THEN conjunct2,
      THEN conjunct2, THEN conjunct2, THEN conjunct2, THEN conjunct1, rule_format]
  note dec = sentinel_filter[THEN conjunct2, THEN conjunct2, THEN conjunct2, THEN conjunct2,
      THEN conjunct2, THEN conjunct2, THEN conjunct2, THEN conjunct2, THEN conjunct1,
      rule_format]
  obtain r where r: "fst (read_photo_meta ?w photo) = Inr r"
    using rpm_header[OF header_gps sidecar_header_world] by simp
  have "(lat r, lon r) = drop_if_zero_coord (Some (92713 / 1800)) (Some (- (51 / 400)))"
    using hdr[of ?w photo "the (exifread_extract ?w photo)" "92713 / 1800" "- (51 / 400)" r]
    by (simp add: header_gps r)
  then have 4: "lat (projr (fst (read_photo_meta ?w photo))) = Some (92713 / 1800)"
    using r by (simp add: drop_if_zero_coord_def)
  have sz: "read_takeout_sidecar ?z photo = Inr (Some 0, Some 0, None)"
    by (simp add: sidecar_with_sidecar)
      (simp add: sidecar_defs with_sidecar_def no_files_def zero_sidecar_def)
  obtain q where q: "fst (read_photo_meta ?z photo) = Inr q"
    using rpm_sidecar_complete[OF header_with_sidecar sz] by simp
  have "(lat q, lon q) = drop_if_zero_coord (Some 0) (Some 0)"
    using sc[of ?z photo 0 0 None q] by (simp add: header_with_sidecar sz q)
  then have 5: "lat (projr (fst (read_photo_meta ?z photo))) = None"
    using q by (simp add: drop_if_zero_coord_def)
  obtain u where u: "fst (read_photo_meta ?c photo) = Inr u"
    using rpm_header[OF header_camera_zero sidecar_zero] by simp
  have "(lat u, lon u) = drop_if_zero_coord (fill None (Some 0)) (fill None (Some 0))"
    using mrg[of ?c photo "the (exifread_extract ?c photo)" "Some 0" "Some 0" None u]
    by (simp add: header_camera_zero sidecar_zero u)
  then have 6: "lat (projr (fst (read_photo_meta ?c photo))) = None"
    and 7: "lon (projr (fst (read_photo_meta ?c photo))) = None"
    using u by (simp_all add: fill_def drop_if_zero_coord_def)
  have hp: "exifread_extract ?p photo = None"
    by (simp add: header_defs world_defs)
  have sp: "read_takeout_sidecar ?p photo = Inr (None, None, None)"
    by (simp add: read_takeout_sidecar_def candidates_photo no_files_def)
  obtain v where v: "fst (read_photo_meta ?p photo) = Inr v"
    using rpm_fallback[OF hp sp] by simp
  have "(lat v, lon v) = drop_if_zero_coord (fill_from None (Some 0)) (fill_from None (Some 0))"
    using dec[of ?p photo None None None "the (pillow_extract ?p photo)" v]
    by (simp add: hp sp v pillow_zero)
  then have 8: "lat (projr (fst (read_photo_meta ?p photo))) = None"
    and 9: "lon (projr (fst (read_photo_meta ?p photo))) = None"
    using v by (simp_all add: fill_from_def drop_if_zero_coord_def)
  from 1 2 3 4 5 6 7 8 9 show ?thesis by (simp only: simp_thms)
qed

subsection \<open>C5: a complete header record is kept\<close>

text \<open>
  C5. If the header parser returns a record with latitude, longitude, datetime, make and
  model all set, and the pair is not the zero sentinel, then the record returned by
  \<^verbatim>\<open>read_photo_meta\<close> carries exactly those values, whatever the sidecar reader and the
  decoder would have produced; the decoder is not even called.
\<close>

theorem complete_header_record_kept:
  assumes "exifread_extract e p = Some m"
    and "lat m = Some a" and "lon m = Some b" and "datetime m = Some d"
    and "make' m = Some mk" and "model m = Some md"
    and "\<not> (\<bar>a\<bar> < 1 / 10 ^ 9 \<and> \<bar>b\<bar> < 1 / 10 ^ 9)"
    and "fst (read_photo_meta e p) = Inr r"
  shows "lat r = Some a \<and> lon r = Some b \<and> datetime r = Some d \<and> make' r = Some mk
     \<and> model r = Some md \<and> extra r = Map.empty \<and> path r = p
     \<and> Pillow \<notin> set (snd (read_photo_meta e p))"
proof (cases "read_takeout_sidecar e p")
  case (Inl err)
  then show ?thesis using assms(8) by (simp add: rpm_raise)
next
  case (Inr t)
  obtain sa sb sd where t: "t = (sa, sb, sd)" by (cases t) auto
  have "read_photo_meta e p =
     (Inr (finish p (Some a) (Some b) (Some d) (Some mk) (Some md) Map.empty), [Exifread, Sidecar])"
    using rpm_header[OF assms(1), of sa sb sd] Inr t assms(2-6) by (simp add: fill_def)
  then show ?thesis using assms(7,8)
    by (auto simp: finish_fields drop_if_zero_coord_def)
qed

theorem complete_header_record_kept_witness:
  "lat (projr (fst (read_photo_meta (header_world gps_tags) photo))) = Some (92713 / 1800)
   \<and> lon (projr (fst (read_photo_meta (header_world gps_tags) photo))) = Some (- (51 / 400))
   \<and> datetime (projr (fst (read_photo_meta (header_world gps_tags) photo))) =
       Some ''2020:01:01 10:00:00''
   \<and> make' (projr (fst (read_photo_meta (header_world gps_tags) photo))) = Some ''Canon''
   \<and> model (projr (fst (read_photo_meta (header_world gps_tags) photo))) = Some ''EOS''
   \<and> Pillow \<notin> set (snd (read_photo_meta (header_world gps_tags) photo))"
proof -
  let ?w = "header_world gps_tags"
  obtain r where r: "fst (read_photo_meta ?w photo) = Inr r"
    using rpm_header[OF header_gps sidecar_header_world] by simp
  have z: "\<not> (\<bar>92713 / 1800 :: real\<bar> < 1 / 10 ^ 9 \<and> \<bar>- (51 / 400) :: real\<bar> < 1 / 10 ^ 9)"
    by simp
  show ?thesis
    using complete_header_record_kept[OF header_gps _ _ _ _ _ z r,
        of "''2020:01:01 10:00:00''" "''Canon''" "''EOS''"] r
    by simp
qed

subsection \<open>C6: geoDataExif comes first\<close>



subsection \<open>C7: read\_photo\_meta does not always return\<close>

text \<open>
  C7 says that \<^verbatim>\<open>read_photo_meta\<close> never raises, for every input path and every behaviour
  of the three strategies. The header parser and the decoder wrap their whole body,
  \<^verbatim>\<open>path.open\<close> included, in \<^verbatim>\<open>try ... except Exception\<close>; the sidecar reader calls
  \<^verbatim>\<open>c.exists()\<close> outside its \<^verbatim>\<open>try\<close>, and \<^verbatim>\<open>read_photo_meta\<close> has no \<^verbatim>\<open>try\<close> of its own.
  \<^verbatim>\<open>Path.exists\<close> (as in CPython 3.11) returns \<open>False\<close> for a missing file and re-raises
  any other \<^verbatim>\<open>OSError\<close>. A photo whose file name has 255 characters, the longest a common
  file system allows, is found by the directory scan and read by the header parser, but
  both sidecar candidates have longer names: the existence test fails with
  \<^verbatim>\<open>OSError\<close> (file name too long), and \<^verbatim>\<open>read_photo_meta\<close> raises it.
\<close>

theorem read_photo_meta_raises_on_long_name:
  "exifread_extract name_limit_world long_photo \<noteq> None
   \<and> length (name long_photo) = 255
   \<and> read_photo_meta name_limit_world long_photo = (Inl OSError, [Exifread, Sidecar])"
proof -
  have n: "name long_photo \<noteq> []" and sl: "CHR ''/'' \<notin> set (name long_photo)"
    and len: "length (name long_photo) = 255"
    by (simp_all add: long_photo_def)
  have x: "path_exists name_limit_world (long_photo\<lparr>name := name long_photo @ ''.json''\<rparr>) =
      Inl OSError"
    by (simp add: name_limit_world_def no_files_def len)
  have "read_takeout_sidecar name_limit_world long_photo = Inl OSError"
    using candidates_names[OF n sl] x by (simp add: read_takeout_sidecar_def)
  then have r: "read_photo_meta name_limit_world long_photo = (Inl OSError, [Exifread, Sidecar])"
    by (rule rpm_raise)
  have h: "exifread_extract name_limit_world long_photo \<noteq> None"
    by (simp add: header_defs name_limit_world_def no_files_def camera_tags_def tag_def)
  from h len r show ?thesis by simp
qed

text \<open>
  In general: whatever the existence test of the first candidate raises,
  \<^verbatim>\<open>read_photo_meta\<close> raises.
\<close>

lemma read_photo_meta_raises_with_exists:
  assumes "name p \<noteq> []" and "CHR ''/'' \<notin> set (name p)"
    and "path_exists e (p\<lparr>name := name p @ ''.json''\<rparr>) = Inl err"
  shows "read_photo_meta e p = (Inl err, [Exifread, Sidecar])"
proof -
  have "read_takeout_sidecar e p = Inl err"
    using candidates_names[OF assms(1,2)] assms(3) by (simp add: read_takeout_sidecar_def)
  then show ?thesis by (rule rpm_raise)
qed

text \<open>
  The candidates are built outside the \<^verbatim>\<open>try\<close> as well: for a path with an empty name
  (\<^verbatim>\<open>Path("/")\<close>, \<^verbatim>\<open>Path(".")\<close>), which the directory scan never yields,
  \<^verbatim>\<open>with_suffix\<close> raises \<^verbatim>\<open>ValueError\<close>.
\<close>

lemma read_photo_meta_raises_without_name:
  "read_photo_meta e \<lparr>parent = ''/'', name = ''''\<rparr> = (Inl ValueError, [Exifread, Sidecar])"
  by (simp add: rpm_raise sidecar_raises)

text \<open>
  What does hold: \<^verbatim>\<open>read_photo_meta\<close> returns a record exactly when the sidecar reader
  returns, and the sidecar reader returns for every path with a file name whose
  existence tests return, whatever the header parser, \<^verbatim>\<open>read_text\<close>, \<^verbatim>\<open>json.loads\<close> and
  the decoder do.
\<close>

lemma read_photo_meta_returns_iff:
  "(\<exists>r. fst (read_photo_meta e p) = Inr r) = (\<exists>t. read_takeout_sidecar e p = Inr t)"
proof (cases "read_takeout_sidecar e p")
  case (Inl err)
  then show ?thesis by (simp add: rpm_raise)
next
  case (Inr t)
  then show ?thesis
    by (cases t) (auto simp: read_photo_meta_def Let_def split: option.splits)
qed

lemma read_photo_meta_returns:
  assumes "name p \<noteq> []" and "CHR ''/'' \<notin> set (name p)"
    and "\<And>c. \<exists>x. path_exists e c = Inr x"
  shows "\<exists>r. fst (read_photo_meta e p) = Inr r"
proof -
  obtain x1 where x1: "path_exists e (p\<lparr>name := name p @ ''.json''\<rparr>) = Inr x1"
    using assms(3) by blast
  have "\<exists>t. read_takeout_sidecar e p = Inr t"
    using read_takeout_sidecar_cases[OF assms(1,2) x1] assms(3) by blast
  then show ?thesis by (simp add: read_photo_meta_returns_iff)
qed

subsection \<open>C8: the value of dms\_to\_decimal\<close>

text \<open>
  C8 as stated: for every well-formed triple (degrees at most 90 for a latitude, at most
  180 for a longitude, minutes and seconds in \<open>[0, 60)\<close>, all with non-zero denominators)
  and reference in N, S, E, W, \<^verbatim>\<open>dms_to_decimal\<close> returns \<open>deg + min/60 + sec/3600\<close>,
  negated exactly for S and W, and the result is at most 90 (180) in absolute value.

  The bound fails: the function adds the three components and checks no range, so
  90 degrees 59 minutes 59 seconds north gives \<open>327599/3600\<close>, about 90.9997.
\<close>

theorem dms_bound_counterexample:
  "dms_to_decimal [(90, 1), (59, 1), (59, 1)] (Some ''N'') = Some (327599 / 3600)
   \<and> (0 :: real) \<le> 90 / 1 \<and> (90 :: real) / 1 \<le> 90
   \<and> (0 :: real) \<le> 59 / 1 \<and> (59 :: real) / 1 < 60
   \<and> \<not> \<bar>327599 / 3600 :: real\<bar> \<le> 90"
  by (simp add: dms_triple)

text \<open>
  C8, amended: for every such triple with non-negative degrees and reference in N, S, E,
  W, \<^verbatim>\<open>dms_to_decimal\<close> returns \<open>x = deg + min/60 + sec/3600\<close> (in exact arithmetic),
  negated exactly for S and W; the absolute value of the result is \<open>x\<close>, and
  \<open>x < deg + 61/60\<close>: below \<open>90 + 61/60\<close> for a latitude with at most 90 degrees and below
  \<open>180 + 61/60\<close> for a longitude with at most 180 degrees. The result is within 90 (180)
  exactly when the angle \<open>x\<close> itself is. \<^verbatim>\<open>dms_to_decimal([(51,1),(30,1),(26,1)], "N")\<close> is
  \<open>92713/1800\<close>, within 0.01 of 51.5072.
\<close>

theorem dms_to_decimal_value:
  assumes "d1 \<noteq> 0" and "d2 \<noteq> 0" and "d3 \<noteq> 0"
    and "0 \<le> n1 / d1" and "0 \<le> n2 / d2" and "n2 / d2 < 60" and "0 \<le> n3 / d3" and "n3 / d3 < 60"
    and "r \<in> {''N'', ''S'', ''E'', ''W''}"
    and "x = n1 / d1 + n2 / d2 / 60 + n3 / d3 / 3600"
  shows "dms_to_decimal [(n1, d1), (n2, d2), (n3, d3)] (Some r) =
           Some (if r = ''S'' \<or> r = ''W'' then - x else x)
     \<and> \<bar>if r = ''S'' \<or> r = ''W'' then - x else x\<bar> = x
     \<and> x < n1 / d1 + 61 / 60
     \<and> (r \<in> {''N'', ''S''} \<and> n1 / d1 \<le> 90 \<longrightarrow> x < 90 + 61 / 60)
     \<and> (r \<in> {''E'', ''W''} \<and> n1 / d1 \<le> 180 \<longrightarrow> x < 180 + 61 / 60)
     \<and> dms_to_decimal [(51, 1), (30, 1), (26, 1)] (Some ''N'') = Some (92713 / 1800)
     \<and> \<bar>92713 / 1800 - 51.5072 :: real\<bar> < 1 / 100"
proof -
  have pos: "0 \<le> x" using assms by simp
  have up: "x < n1 / d1 + 61 / 60" using assms by simp
  have val: "dms_to_decimal [(n1, d1), (n2, d2), (n3, d3)] (Some r) =
               Some (if r = ''S'' \<or> r = ''W'' then - x else x)"
    using assms(1-3,10) by (simp add: dms_triple)
  have abs: "\<bar>if r = ''S'' \<or> r = ''W'' then - x else x\<bar> = x" using pos by simp
  have b2: "r \<in> {''N'', ''S''} \<and> n1 / d1 \<le> 90 \<longrightarrow> x < 90 + 61 / 60"
    using up by linarith
  have b3: "r \<in> {''E'', ''W''} \<and> n1 / d1 \<le> 180 \<longrightarrow> x < 180 + 61 / 60"
    using up by linarith
  have ex: "dms_to_decimal [(51, 1), (30, 1), (26, 1)] (Some ''N'') = Some (92713 / 1800)"
    by (simp add: dms_triple)
  have tol: "\<bar>92713 / 1800 - 51.5072 :: real\<bar> < 1 / 100" by simp
  from val abs up b2 b3 ex tol show ?thesis by blast
qed

theorem dms_to_decimal_value_witness:
  "dms_to_decimal [(48, 1), (5127, 100), (0, 1)] (Some ''S'') = Some (- (97709 / 2000))
   \<and> \<bar>- (97709 / 2000) :: real\<bar> = 97709 / 2000
   \<and> (97709 / 2000 :: real) < 90 + 61 / 60"
  using dms_to_decimal_value[of 1 100 1 48 5127 0 "''S''" "97709 / 2000"] by simp

subsection \<open>C9: a failing conversion yields None\<close>

text \<open>
  C9. For every input to the two conversions from degrees, minutes and seconds
  (\<^verbatim>\<open>dms_to_decimal\<close> and \<^verbatim>\<open>_ratios_to_decimal\<close>), a parse or arithmetic failure yields
  \<open>None\<close> for that coordinate and no exception: a component list with fewer than three
  elements, a zero denominator (a pair \<open>(n, 0)\<close>, or a ratio string whose denominator
  parses to zero), and an unparseable ratio string (a part that \<^verbatim>\<open>float\<close> rejects, on
  either side of the slash or as a whole, or a part with more than one slash). Both
  functions return an \<^typ>\<open>real option\<close>: every exception of their bodies is caught.
\<close>

theorem conversion_failure_is_None:
  "(length dms < 3 \<longrightarrow> dms_to_decimal dms r = None)
 \<and> ((n, 0) \<in> set dms \<longrightarrow> dms_to_decimal dms r = None)
 \<and> (length parts < 3 \<longrightarrow> ratios_to_decimal pf parts r = None)
 \<and> (s \<in> set parts \<and> s = num @ ''/'' @ den \<and> CHR ''/'' \<notin> set num \<and> CHR ''/'' \<notin> set den
      \<and> pf den = Some 0 \<longrightarrow> ratios_to_decimal pf parts r = None)
 \<and> (s \<in> set parts \<and> s = num @ ''/'' @ den \<and> CHR ''/'' \<notin> set num \<and> CHR ''/'' \<notin> set den
      \<and> (pf num = None \<or> pf den = None) \<longrightarrow> ratios_to_decimal pf parts r = None)
 \<and> (s \<in> set parts \<and> CHR ''/'' \<notin> set s \<and> pf s = None \<longrightarrow> ratios_to_decimal pf parts r = None)
 \<and> (s \<in> set parts \<and> 1 < count_list s CHR ''/'' \<longrightarrow> ratios_to_decimal pf parts r = None)"
proof (intro conjI impI)
  show "length dms < 3 \<Longrightarrow> dms_to_decimal dms r = None" by (rule dms_short)
  show "(n, 0) \<in> set dms \<Longrightarrow> dms_to_decimal dms r = None" by (rule dms_zero)
  show "length parts < 3 \<Longrightarrow> ratios_to_decimal pf parts r = None" by (simp add: ratios_not3)
next
  assume a: "s \<in> set parts \<and> s = num @ ''/'' @ den \<and> CHR ''/'' \<notin> set num \<and> CHR ''/'' \<notin> set den \<and> pf den = Some 0"
  then obtain err where "to_float pf s = Inl err" using to_float_zero_den[of num den pf] by auto
  with a show "ratios_to_decimal pf parts r = None" by (auto intro: ratios_fail)
next
  assume a: "s \<in> set parts \<and> s = num @ ''/'' @ den \<and> CHR ''/'' \<notin> set num \<and> CHR ''/'' \<notin> set den \<and> (pf num = None \<or> pf den = None)"
  then have "to_float pf s = Inl ValueError" using to_float_unparseable_ratio[of num den pf] by auto
  with a show "ratios_to_decimal pf parts r = None" by (auto intro: ratios_fail)
next
  assume a: "s \<in> set parts \<and> CHR ''/'' \<notin> set s \<and> pf s = None"
  then have "to_float pf s = Inl ValueError" by (simp add: to_float_unparseable)
  with a show "ratios_to_decimal pf parts r = None" by (auto intro: ratios_fail)
next
  assume a: "s \<in> set parts \<and> 1 < count_list s CHR ''/''"
  then have "to_float pf s = Inl ValueError" by (simp add: to_float_many)
  with a show "ratios_to_decimal pf parts r = None" by (auto intro: ratios_fail)
qed

theorem conversion_failure_is_None_witness:
  "dms_to_decimal [(51, 1), (30, 1)] (Some ''N'') = None
 \<and> dms_to_decimal [(51, 1), (30, 0), (26, 1)] (Some ''N'') = None
 \<and> ratios_to_decimal (map_of [(''51'', 51), (''0'', 0)]) [''51'', ''51''] (Some ''N'') = None
 \<and> ratios_to_decimal (map_of [(''51'', 51), (''0'', 0)]) [''51'', ''51/0'', ''51''] (Some ''N'') = None
 \<and> ratios_to_decimal (map_of [(''51'', 51), (''0'', 0)]) [''51'', ''x/51'', ''51''] (Some ''N'') = None
 \<and> ratios_to_decimal (map_of [(''51'', 51), (''0'', 0)]) [''51'', ''abc'', ''51''] (Some ''N'') = None
 \<and> ratios_to_decimal (map_of [(''51'', 51), (''0'', 0)]) [''51'', ''1/2/3'', ''51''] (Some ''N'') = None"
proof -
  let ?pf = "map_of [(''51'', 51 :: real), (''0'', 0)]"
  have 1: "dms_to_decimal [(51, 1), (30, 1)] (Some ''N'') = None"
    and 3: "ratios_to_decimal ?pf [''51'', ''51''] (Some ''N'') = None"
    using conversion_failure_is_None[where dms = "[(51, 1), (30, 1)]" and r = "Some ''N''" and n = 0
        and parts = "[''51'', ''51'']" and pf = ?pf and s = "[]" and num = "[]" and den = "[]"]
    by simp_all
  have 2: "dms_to_decimal [(51, 1), (30, 0), (26, 1)] (Some ''N'') = None"
    and 4: "ratios_to_decimal ?pf [''51'', ''51/0'', ''51''] (Some ''N'') = None"
    using conversion_failure_is_None[where dms = "[(51, 1), (30, 0), (26, 1)]" and r = "Some ''N''" and n = 30
        and parts = "[''51'', ''51/0'', ''51'']" and pf = ?pf and s = "''51/0''"
        and num = "''51''" and den = "''0''"]
    by simp_all
  have 5: "ratios_to_decimal ?pf [''51'', ''x/51'', ''51''] (Some ''N'') = None"
    using conversion_failure_is_None[where dms = "[]" and r = "Some ''N''" and n = 0
        and parts = "[''51'', ''x/51'', ''51'']" and pf = ?pf and s = "''x/51''"
        and num = "''x''" and den = "''51''"]
    by simp
  have 6: "ratios_to_decimal ?pf [''51'', ''abc'', ''51''] (Some ''N'') = None"
    using conversion_failure_is_None[where dms = "[]" and r = "Some ''N''" and n = 0
        and parts = "[''51'', ''abc'', ''51'']" and pf = ?pf and s = "''abc''"
        and num = "[]" and den = "[]"]
    by simp
  have 7: "ratios_to_decimal ?pf [''51'', ''1/2/3'', ''51''] (Some ''N'') = None"
    using conversion_failure_is_None[where dms = "[]" and r = "Some ''N''" and n = 0
        and parts = "[''51'', ''1/2/3'', ''51'']" and pf = ?pf and s = "''1/2/3''"
        and num = "[]" and den = "[]"]
    by simp
  from 1 2 3 4 5 6 7 show ?thesis by blast
qed

subsection \<open>C10: a partial pair is replaced, not merged\<close>

text \<open>
  C10. In the key search of the sidecar reader a partial result of a higher-priority key is
  not preserved: if \<^verbatim>\<open>geoDataExif\<close> is an object whose \<^verbatim>\<open>pick_latlon\<close> result is incomplete
  (a lone latitude, a lone longitude, or nothing because a value is not numeric) and a
  later key is an object, the result of the search is the \<^verbatim>\<open>pick_latlon\<close> result of a
  later key: that of \<^verbatim>\<open>geoData\<close> if it is complete or \<^verbatim>\<open>location\<close> is not an object,
  that of \<^verbatim>\<open>location\<close> otherwise. Both values are replaced; nothing of the earlier
  partial pair is merged in.
\<close>

theorem partial_pair_replaced:
  assumes "dict_get d ''geoDataExif'' = JObj g1"
    and "fst (pick_latlon pf g1) = None \<or> snd (pick_latlon pf g1) = None"
  shows "(dict_get d ''geoData'' = JObj g2 \<longrightarrow>
            key_loop pf d geo_keys acc =
              (if fst (pick_latlon pf g2) \<noteq> None \<and> snd (pick_latlon pf g2) \<noteq> None
               then pick_latlon pf g2
               else (case dict_get d ''location'' of
                       JObj g3 \<Rightarrow> pick_latlon pf g3
                     | _ \<Rightarrow> pick_latlon pf g2)))
     \<and> ((\<forall>g. dict_get d ''geoData'' \<noteq> JObj g) \<and> dict_get d ''location'' = JObj g3 \<longrightarrow>
            key_loop pf d geo_keys acc = pick_latlon pf g3)"
proof (intro conjI impI)
  have n1: "complete_pair pf d ''geoDataExif'' = None"
    using assms by (simp add: complete_pair_None_object)
  have s1: "key_loop pf d geo_keys acc =
      key_loop pf d [''geoData'', ''location''] (pick_latlon pf g1)"
    unfolding geo_keys_def using key_loop_step_object[OF assms(1) n1] by simp
  {
    assume g2: "dict_get d ''geoData'' = JObj g2"
    show "key_loop pf d geo_keys acc =
              (if fst (pick_latlon pf g2) \<noteq> None \<and> snd (pick_latlon pf g2) \<noteq> None
               then pick_latlon pf g2
               else (case dict_get d ''location'' of
                       JObj g3 \<Rightarrow> pick_latlon pf g3
                     | _ \<Rightarrow> pick_latlon pf g2))"
      unfolding s1 using g2 by (auto simp: Let_def split: json.splits)
  }
  {
    assume h: "(\<forall>g. dict_get d ''geoData'' \<noteq> JObj g) \<and> dict_get d ''location'' = JObj g3"
    then have "key_loop pf d [''geoData'', ''location''] (pick_latlon pf g1) =
        key_loop pf d [''location''] (pick_latlon pf g1)"
      using key_loop_step_other[of d "''geoData''"] by simp
    with h show "key_loop pf d geo_keys acc = pick_latlon pf g3"
      unfolding s1 by (auto simp: Let_def)
  }
qed

theorem partial_pair_replaced_witness:
  "key_loop (\<lambda>s. None)
     [(''geoDataExif'', JObj [(''latitude'', JFloat 1)]),
      (''geoData'', JObj [(''longitude'', JFloat 2)])]
     geo_keys (None, None) = (None, Some 2)
   \<and> key_loop (\<lambda>s. None)
     [(''geoDataExif'', JObj [(''latitude'', JFloat 1), (''longitude'', JStr ''east'')]),
      (''location'', JObj [(''latitude'', JFloat 3), (''longitude'', JFloat 4)])]
     geo_keys (None, None) = (Some 3, Some 4)"
proof -
  let ?pf = "\<lambda>s :: string. None :: real option"
  let ?d = "[(''geoDataExif'', JObj [(''latitude'', JFloat 1)]),
             (''geoData'', JObj [(''longitude'', JFloat 2)])]"
  have 1: "dict_get ?d ''geoDataExif'' = JObj [(''latitude'', JFloat 1)]"
    by (simp add: dict_get_def)
  have 2: "fst (pick_latlon ?pf [(''latitude'', JFloat 1)]) = None \<or>
           snd (pick_latlon ?pf [(''latitude'', JFloat 1)]) = None"
    by (simp add: pick_latlon_def float_or_None_def dict_get_def)
  have a: "key_loop ?pf ?d geo_keys (None, None) = (None, Some 2)"
    using partial_pair_replaced[OF 1 2, of "[(''longitude'', JFloat 2)]" "(None, None)" "[]"]
    by (simp add: pick_latlon_def float_or_None_def dict_get_def)
  let ?g = "[(''latitude'', JFloat 1), (''longitude'', JStr ''east'')]"
  let ?d' = "[(''geoDataExif'', JObj ?g),
              (''location'', JObj [(''latitude'', JFloat 3), (''longitude'', JFloat 4)])]"
  have 3: "dict_get ?d' ''geoDataExif'' = JObj ?g"
    by (simp add: dict_get_def)
  have 4: "fst (pick_latlon ?pf ?g) = None \<or> snd (pick_latlon ?pf ?g) = None"
    by (simp add: pick_latlon_def float_or_None_def dict_get_def float_str_def)
  have b: "key_loop ?pf ?d' geo_keys (None, None) = (Some 3, Some 4)"
    using partial_pair_replaced[OF 3 4, of "[]" "(None, None)"
        "[(''latitude'', JFloat 3), (''longitude'', JFloat 4)]"]
    by (simp add: pick_latlon_def float_or_None_def dict_get_def)
  from a b show ?thesis by blast
qed

end
